theory Spec2Isabelle
  imports Complex_Main "HOL-Library.Sublist"
begin

section \<open>JavaScript values\<close>

text \<open>
  The parser receives an event of TypeScript type \<open>unknown\<close>. Values are modelled as
  trees: an object is the list of its own enumerable properties in insertion order, an
  array is a list. \<open>JUndefined\<close> is what reading an absent property yields. A number is
  a rational (every finite double is one); \<open>NaN\<close> and the infinities, which JSON cannot
  carry, are outside the model. \<open>JSet\<close> is a \<open>Set\<close> instance, the target of the
  set kinds of an attribute value.
\<close>

datatype jsval =
    JUndefined
  | JNull
  | JBool bool
  | JNum rat
  | JStr string
  | JArr "jsval list"
  | JObj "(string \<times> jsval) list"
  | JSet "jsval list"

type_synonym props = "(string \<times> jsval) list"

text \<open>\<open>object[key]\<close>: the first property of that name, \<open>undefined\<close> when there is none.\<close>

definition get_prop :: "props \<Rightarrow> string \<Rightarrow> jsval" where
  "get_prop ps k = (case map_of ps k of None \<Rightarrow> JUndefined | Some v \<Rightarrow> v)"

text \<open>\<open>key in object\<close>.\<close>

definition has_prop :: "props \<Rightarrow> string \<Rightarrow> bool" where
  "has_prop ps k = (k \<in> set (map fst ps))"

text \<open>
  \<open>object[key] = v\<close>: an existing property keeps its place and takes the new value, a
  new property goes to the end.
\<close>

fun set_prop :: "props \<Rightarrow> string \<Rightarrow> jsval \<Rightarrow> props" where
  "set_prop [] k v = [(k, v)]"
| "set_prop ((k', v') # ps) k v =
     (if k' = k then (k, v) # ps else (k', v') # set_prop ps k v)"

text \<open>The own enumerable properties a spread \<open>{ ...object }\<close> copies.\<close>

fun props_of :: "jsval \<Rightarrow> props" where
  "props_of (JObj ps) = ps"
| "props_of _ = []"

text \<open>JavaScript truthiness, as \<open>if (object.NewImage)\<close> tests it.\<close>

fun truthy :: "jsval \<Rightarrow> bool" where
  "truthy JUndefined = False"
| "truthy JNull = False"
| "truthy (JBool b) = b"
| "truthy (JNum n) = (n \<noteq> 0)"
| "truthy (JStr s) = (s \<noteq> [])"
| "truthy (JArr _) = True"
| "truthy (JObj _) = True"
| "truthy (JSet _) = True"

section \<open>The validation library (zod 4), as far as the schemas use it\<close>

text \<open>
  The schemas of \<open>schemas/dynamodb.ts\<close> are built from the combinators of the external
  validation library. A schema is modelled by its \<open>run\<close> function: from the input value
  to the payload it leaves, the list of issues and the output value. A parse succeeds
  exactly when the list of issues is empty; the value of a failed payload is never
  handed to a caller. An issue carries its code, the expected type where the library
  records one, its message, its path from the root, and the \<open>fatal\<close> flag a caller of
  \<open>ctx.addIssue\<close> may set.
\<close>

datatype pkey = Key string | Index nat

record issue =
  code :: string
  expected :: "string option"
  message :: string
  path :: "pkey list"
  fatal :: bool

type_synonym zresult = "issue list \<times> jsval"
type_synonym zschema = "jsval \<Rightarrow> zresult"

text \<open>The name the English locale prints for the type of a rejected input.\<close>

fun parsedType :: "jsval \<Rightarrow> string" where
  "parsedType JUndefined = ''undefined''"
| "parsedType JNull = ''null''"
| "parsedType (JBool _) = ''boolean''"
| "parsedType (JNum _) = ''number''"
| "parsedType (JStr _) = ''string''"
| "parsedType (JArr _) = ''array''"
| "parsedType (JObj _) = ''object''"
| "parsedType (JSet _) = ''Set''"

definition invalid_type :: "string \<Rightarrow> jsval \<Rightarrow> issue" where
  "invalid_type ex input =
     \<lparr> code = ''invalid_type'', expected = Some ex,
       message = ''Invalid input: expected '' @ ex @ '', received '' @ parsedType input,
       path = [], fatal = False \<rparr>"

text \<open>A string literal as the library prints it in a message: between double quotes.\<close>

definition stringifyPrimitive :: "string \<Rightarrow> string" where
  "stringifyPrimitive v = CHR 0x22 # v @ [CHR 0x22]"

fun joinValues :: "string list \<Rightarrow> string" where
  "joinValues [] = []"
| "joinValues [v] = stringifyPrimitive v"
| "joinValues (v # vs) = stringifyPrimitive v @ ''|'' @ joinValues vs"

definition invalid_value :: "string list \<Rightarrow> issue" where
  "invalid_value vals =
     \<lparr> code = ''invalid_value'', expected = None,
       message =
         (if length vals = 1 then ''Invalid input: expected '' @ stringifyPrimitive (hd vals)
          else ''Invalid option: expected one of '' @ joinValues vals),
       path = [], fatal = False \<rparr>"

definition too_small :: "string \<Rightarrow> string \<Rightarrow> issue" where
  "too_small origin unit =
     \<lparr> code = ''too_small'', expected = None,
       message = ''Too small: expected '' @ origin @ '' to have >=1 '' @ unit,
       path = [], fatal = False \<rparr>"

definition invalid_format :: "string \<Rightarrow> issue" where
  "invalid_format noun =
     \<lparr> code = ''invalid_format'', expected = None,
       message = ''Invalid '' @ noun, path = [], fatal = False \<rparr>"

text \<open>An issue of a property or an element is reported under the key it was found at.\<close>

definition prefixIssues :: "pkey \<Rightarrow> issue list \<Rightarrow> issue list" where
  "prefixIssues k iss = map (\<lambda>i. i\<lparr> path := k # path i \<rparr>) iss"

definition z_any :: zschema where
  "z_any input = ([], input)"

definition z_string :: zschema where
  "z_string input =
     (case input of JStr _ \<Rightarrow> ([], input) | _ \<Rightarrow> ([invalid_type ''string'' input], input))"

definition z_number :: zschema where
  "z_number input =
     (case input of JNum _ \<Rightarrow> ([], input) | _ \<Rightarrow> ([invalid_type ''number'' input], input))"

definition z_boolean :: zschema where
  "z_boolean input =
     (case input of JBool _ \<Rightarrow> ([], input) | _ \<Rightarrow> ([invalid_type ''boolean'' input], input))"

definition z_enum :: "string list \<Rightarrow> zschema" where
  "z_enum vals input =
     (case input of
        JStr s \<Rightarrow> if s \<in> set vals then ([], input) else ([invalid_value vals], input)
      | _ \<Rightarrow> ([invalid_value vals], input))"

definition z_literal :: "string \<Rightarrow> zschema" where
  "z_literal lit input =
     (if input = JStr lit then ([], input) else ([invalid_value [lit]], input))"

text \<open>
  \<open>z.iso.datetime()\<close>: a string of the ISO date-time format. The format is the
  library's regular expression; it is a parameter here.
\<close>

definition z_iso_datetime :: "(string \<Rightarrow> bool) \<Rightarrow> zschema" where
  "z_iso_datetime isDatetime input =
     (case input of
        JStr s \<Rightarrow> if isDatetime s then ([], input) else ([invalid_format ''ISO datetime''], input)
      | _ \<Rightarrow> ([invalid_type ''string'' input], input))"

definition z_optional :: "zschema \<Rightarrow> zschema" where
  "z_optional inner input = (if input = JUndefined then ([], JUndefined) else inner input)"

text \<open>\<open>.nullish()\<close> is \<open>optional(nullable(inner))\<close>.\<close>

definition z_nullable :: "zschema \<Rightarrow> zschema" where
  "z_nullable inner input = (if input = JNull then ([], JNull) else inner input)"

definition z_nullish :: "zschema \<Rightarrow> zschema" where
  "z_nullish inner = z_optional (z_nullable inner)"

text \<open>
  \<open>z.object(shape)\<close>: the input must be an object (a \<open>Set\<close> instance is one, with no
  property of its own). Every key of the shape is validated on \<open>input[key]\<close>, in the
  order of the shape, and every issue is kept, under its key. The output has the keys of
  the shape only: a key whose output is \<open>undefined\<close> is present only when the input had it.
\<close>

definition object_results :: "(string \<times> zschema) list \<Rightarrow> props \<Rightarrow> (string \<times> zresult) list" where
  "object_results shape ps = map (\<lambda>(k, s). (k, s (get_prop ps k))) shape"

definition object_issues :: "(string \<times> zresult) list \<Rightarrow> issue list" where
  "object_issues rs = concat (map (\<lambda>(k, r). prefixIssues (Key k) (fst r)) rs)"

definition object_value :: "props \<Rightarrow> (string \<times> zresult) list \<Rightarrow> props" where
  "object_value ps rs =
     concat (map (\<lambda>(k, r).
       if snd r = JUndefined then (if has_prop ps k then [(k, JUndefined)] else [])
       else [(k, snd r)]) rs)"

definition z_object_props :: "(string \<times> zschema) list \<Rightarrow> props \<Rightarrow> zresult" where
  "z_object_props shape ps =
     (let rs = object_results shape ps in (object_issues rs, JObj (object_value ps rs)))"

definition z_object :: "(string \<times> zschema) list \<Rightarrow> zschema" where
  "z_object shape input =
     (case input of
        JObj ps \<Rightarrow> z_object_props shape ps
      | JSet _ \<Rightarrow> z_object_props shape []
      | _ \<Rightarrow> ([invalid_type ''object'' input], input))"

text \<open>
  \<open>.omit({k: true, ...})\<close> and \<open>.extend({...})\<close> act on the shape: \<open>z_extend\<close> spreads the
  new keys over the old shape, so a key already there keeps its place.
\<close>

definition z_omit :: "string list \<Rightarrow> (string \<times> zschema) list \<Rightarrow> (string \<times> zschema) list" where
  "z_omit ks shape = filter (\<lambda>(k, s). k \<notin> set ks) shape"

fun set_field :: "(string \<times> zschema) list \<Rightarrow> string \<Rightarrow> zschema \<Rightarrow> (string \<times> zschema) list" where
  "set_field [] k s = [(k, s)]"
| "set_field ((k', s') # sh) k s =
     (if k' = k then (k, s) # sh else (k', s') # set_field sh k s)"

definition z_extend :: "(string \<times> zschema) list \<Rightarrow> (string \<times> zschema) list \<Rightarrow> (string \<times> zschema) list" where
  "z_extend shape ext = fold (\<lambda>(k, s) sh. set_field sh k s) ext shape"

text \<open>
  \<open>z.record(z.string(), valueType)\<close>: the input must be a plain object; every property but
  \<open>__proto__\<close> is validated, its issues kept under its key.
\<close>

definition z_record :: "zschema \<Rightarrow> zschema" where
  "z_record valueType input =
     (case input of
        JObj ps \<Rightarrow>
          (let rs = map (\<lambda>(k, v). (k, valueType v)) (filter (\<lambda>(k, v). k \<noteq> ''__proto__'') ps)
           in (object_issues rs, JObj (map (\<lambda>(k, r). (k, snd r)) rs)))
      | _ \<Rightarrow> ([invalid_type ''record'' input], input))"

text \<open>
  \<open>z.array(element)\<close>: the input must be an array; the output has one slot for every
  element of the input, filled in order, and the issues of element \<open>i\<close> are kept under
  index \<open>i\<close>.
\<close>

definition array_results :: "zschema \<Rightarrow> jsval list \<Rightarrow> zresult list" where
  "array_results element xs = map element xs"

definition array_issues :: "zresult list \<Rightarrow> issue list" where
  "array_issues rs =
     concat (map (\<lambda>(i, r). prefixIssues (Index i) (fst r)) (zip [0..<length rs] rs))"

definition z_array :: "zschema \<Rightarrow> zschema" where
  "z_array element input =
     (case input of
        JArr xs \<Rightarrow>
          (let rs = array_results element xs in (array_issues rs, JArr (map snd rs)))
      | _ \<Rightarrow> ([invalid_type ''array'' input], input))"

text \<open>
  \<open>.nonempty()\<close> is the check \<open>minLength(1)\<close>. The check runs after the schema it is
  attached to, on a payload whose value has a \<open>length\<close>, and adds its issue to the ones
  already there. The values with a \<open>length\<close> that this definition covers are the arrays
  and the strings. The library also runs the check on an object that has a property
  named \<open>length\<close>, comparing that property with 1 after the conversion of JavaScript to a
  floating-point number: this case is not modelled. It concerns inputs that \<open>z.array\<close>
  has already rejected, so it changes the number of issues of a failure and not which
  inputs fail.
\<close>

definition z_nonempty :: "zschema \<Rightarrow> zschema" where
  "z_nonempty inner input =
     (case inner input of
        (iss, JArr xs) \<Rightarrow>
          if length xs \<ge> 1 then (iss, JArr xs) else (iss @ [too_small ''array'' ''items''], JArr xs)
      | (iss, JStr cs) \<Rightarrow>
          if length cs \<ge> 1 then (iss, JStr cs)
          else (iss @ [too_small ''string'' ''characters''], JStr cs)
      | r \<Rightarrow> r)"

text \<open>
  \<open>schema.transform(f)\<close> pipes the schema into the transform: \<open>f\<close> runs only on a payload
  without issues, receives the output of the schema and a context whose \<open>addIssue\<close>
  appends to the issues of the payload, and its return value becomes the value of the
  payload. \<open>z.NEVER\<close> is the frozen object \<open>{status: "aborted"}\<close>; a function that
  returns it is modelled as returning \<open>None\<close>, since the source compares with it by
  identity.
\<close>

definition NEVER :: jsval where
  "NEVER = JObj [(''status'', JStr ''aborted'')]"

type_synonym refinement = "jsval \<Rightarrow> issue list \<Rightarrow> jsval option \<times> issue list"

definition z_transform :: "zschema \<Rightarrow> refinement \<Rightarrow> zschema" where
  "z_transform inner f input =
     (case inner input of
        (iss, v) \<Rightarrow>
          if iss \<noteq> [] then (iss, v)
          else (case f v iss of
                  (None, ctx) \<Rightarrow> (ctx, NEVER)
                | (Some out, ctx) \<Rightarrow> (ctx, out)))"

text \<open>The two entry points of a schema: \<open>safeParse\<close> returns, \<open>parse\<close> throws the issues.\<close>

datatype safeParseResult = ZSuccess jsval | ZFailure "issue list"

definition z_safeParse :: "zschema \<Rightarrow> jsval \<Rightarrow> safeParseResult" where
  "z_safeParse schema input =
     (case schema input of (iss, v) \<Rightarrow> if iss \<noteq> [] then ZFailure iss else ZSuccess v)"

definition z_parse :: "zschema \<Rightarrow> jsval \<Rightarrow> issue list + jsval" where
  "z_parse schema input =
     (case schema input of (iss, v) \<Rightarrow> if iss \<noteq> [] then Inl iss else Inr v)"

section \<open>The attribute-value codec\<close>

text \<open>
  \<open>schemas/dynamodb.ts\<close> imports \<open>unmarshallDynamoDB\<close> from the commons package, which is
  not among the sources. The spec (4.1, the Structured-Value Codec) gives its contract: a
  structured value is a map with exactly one key, a kind tag; \<open>decode\<close> fails on zero or
  more than one tag, on a key that is no kind tag, and on a payload that does not have
  the shape of its kind; the number kind holds a numeric string and decodes to a number;
  the list and map kinds recurse; the set kinds decode to a collection of decoded
  primitives. The definitions of this section follow that contract. A failure is \<open>None\<close>:
  the source catches the exception and does not look at it.
\<close>

text \<open>
  Modelled from the spec: the value of a decimal digit, for the numeric strings of the
  number kind (the codec is not among the sources).
\<close>

definition digit_val :: "char \<Rightarrow> nat option" where
  "digit_val c = map_of (zip ''0123456789'' [0, 1, 2, 3, 4, 5, 6, 7, 8, 9]) c"

text \<open>
  Modelled from the spec: the number a string of decimal digits denotes (part of the
  codec, which is not among the sources).
\<close>

fun digits_val :: "string \<Rightarrow> nat \<Rightarrow> nat option" where
  "digits_val [] acc = Some acc"
| "digits_val (c # cs) acc =
     (case digit_val c of None \<Rightarrow> None | Some d \<Rightarrow> digits_val cs (10 * acc + d))"

text \<open>
  Modelled from the spec: a non-empty string of decimal digits (part of the codec, which
  is not among the sources).
\<close>

definition parse_nat :: "string \<Rightarrow> nat option" where
  "parse_nat s = (if s = [] then None else digits_val s 0)"

text \<open>
  Modelled from the spec: a numeric string without a sign, digits and an optional
  fraction (part of the codec, which is not among the sources; spec 4.1: the payload of
  the number kind must be numeric-string-parseable).
\<close>

definition unsigned_numeric :: "string \<Rightarrow> rat option" where
  "unsigned_numeric s =
     (let ip = takeWhile (\<lambda>c. c \<noteq> CHR ''.'') s; rest = dropWhile (\<lambda>c. c \<noteq> CHR ''.'') s
      in case rest of
           [] \<Rightarrow> map_option of_nat (parse_nat ip)
         | _ # fp \<Rightarrow>
             (case (parse_nat ip, parse_nat fp) of
                (Some i, Some f) \<Rightarrow> Some (of_nat i + of_nat f / of_nat (10 ^ length fp))
              | _ \<Rightarrow> None))"

text \<open>
  Modelled from the spec: a numeric string, with an optional sign (part of the codec,
  which is not among the sources).
\<close>

definition numeric :: "string \<Rightarrow> rat option" where
  "numeric s =
     (case s of
        c # cs \<Rightarrow> if c = CHR ''-'' then map_option uminus (unsigned_numeric cs)
                  else unsigned_numeric s
      | [] \<Rightarrow> None)"

text \<open>
  Modelled from the spec: the members of a string set or a binary set, which must all
  be strings (part of the codec, which is not among the sources).
\<close>

fun strings_of :: "jsval list \<Rightarrow> jsval list option" where
  "strings_of [] = Some []"
| "strings_of (JStr s # xs) = map_option ((#) (JStr s)) (strings_of xs)"
| "strings_of (_ # xs) = None"

text \<open>
  Modelled from the spec: the members of a number set, which must all be numeric strings
  (part of the codec, which is not among the sources).
\<close>

fun numbers_of :: "jsval list \<Rightarrow> jsval list option" where
  "numbers_of [] = Some []"
| "numbers_of (JStr s # xs) =
     (case numeric s of
        None \<Rightarrow> None
      | Some n \<Rightarrow> map_option ((#) (JNum n)) (numbers_of xs))"
| "numbers_of (_ # xs) = None"

text \<open>
  Modelled from the spec: the collection a set kind decodes to (part of the codec, which
  is not among the sources). A \<open>Set\<close> keeps the first occurrence of every member.
\<close>

definition new_Set :: "jsval list \<Rightarrow> jsval" where
  "new_Set xs = JSet (rev (remdups (rev xs)))"

text \<open>
  Modelled from the spec: \<open>decode\<close> of the Structured-Value Codec (spec 4.1; the codec is
  not among the sources). The tags are the ones of the stream format: \<open>S\<close>, \<open>N\<close>,
  \<open>BOOL\<close>, \<open>NULL\<close>, \<open>B\<close>, \<open>L\<close>, \<open>M\<close>, \<open>SS\<close>, \<open>NS\<close>, \<open>BS\<close>.
\<close>

fun decode :: "jsval \<Rightarrow> jsval option"
  and decode_list :: "jsval list \<Rightarrow> jsval list option"
  and decode_entries :: "props \<Rightarrow> props option" where
  "decode (JObj [(tag, payload)]) =
     (if tag = ''S'' then (case payload of JStr s \<Rightarrow> Some (JStr s) | _ \<Rightarrow> None)
      else if tag = ''N'' then
        (case payload of JStr s \<Rightarrow> map_option JNum (numeric s) | _ \<Rightarrow> None)
      else if tag = ''BOOL'' then (case payload of JBool b \<Rightarrow> Some (JBool b) | _ \<Rightarrow> None)
      else if tag = ''NULL'' then
        (case payload of JBool b \<Rightarrow> if b then Some JNull else None | _ \<Rightarrow> None)
      else if tag = ''B'' then (case payload of JStr s \<Rightarrow> Some (JStr s) | _ \<Rightarrow> None)
      else if tag = ''L'' then
        (case payload of JArr xs \<Rightarrow> map_option JArr (decode_list xs) | _ \<Rightarrow> None)
      else if tag = ''M'' then
        (case payload of JObj es \<Rightarrow> map_option JObj (decode_entries es) | _ \<Rightarrow> None)
      else if tag = ''SS'' then
        (case payload of JArr xs \<Rightarrow> map_option new_Set (strings_of xs) | _ \<Rightarrow> None)
      else if tag = ''NS'' then
        (case payload of JArr xs \<Rightarrow> map_option new_Set (numbers_of xs) | _ \<Rightarrow> None)
      else if tag = ''BS'' then
        (case payload of JArr xs \<Rightarrow> map_option new_Set (strings_of xs) | _ \<Rightarrow> None)
      else None)"
| "decode _ = None"
| "decode_list [] = Some []"
| "decode_list (x # xs) =
     (case decode x of
        None \<Rightarrow> None
      | Some y \<Rightarrow> map_option ((#) y) (decode_list xs))"
| "decode_entries [] = Some []"
| "decode_entries ((k, x) # es) =
     (case decode x of
        None \<Rightarrow> None
      | Some y \<Rightarrow> map_option ((#) (k, y)) (decode_entries es))"

text \<open>
  Modelled from the spec: \<open>unmarshallDynamoDB\<close> of the commons package, which is not among
  the sources, on an image (\<open>Keys\<close>, \<open>NewImage\<close>, \<open>OldImage\<close>): a map from attribute names
  to structured values, every entry of which is decoded (spec 3 and 8, scenario A).
\<close>

definition unmarshallDynamoDB :: "jsval \<Rightarrow> jsval option" where
  "unmarshallDynamoDB img =
     (case img of JObj es \<Rightarrow> map_option JObj (decode_entries es) | _ \<Rightarrow> None)"

section \<open>The schemas of the stream event (\<open>schemas/dynamodb.ts\<close>)\<close>

text \<open>
  The schemas take the unmarshalling function \<open>um\<close> they import as a parameter (\<open>None\<close>
  is the exception the source catches), and the stream event schema takes the format
  test of \<open>z.iso.datetime()\<close>.
\<close>

definition DynamoDBStreamChangeRecordBase_shape :: "(string \<times> zschema) list" where
  "DynamoDBStreamChangeRecordBase_shape =
     [(''ApproximateCreationDateTime'', z_optional z_number),
      (''Keys'', z_record (z_record z_any)),
      (''NewImage'', z_optional (z_record z_any)),
      (''OldImage'', z_optional (z_record z_any)),
      (''SequenceNumber'', z_string),
      (''SizeBytes'', z_number),
      (''StreamViewType'',
         z_enum [''NEW_IMAGE'', ''OLD_IMAGE'', ''NEW_AND_OLD_IMAGES'', ''KEYS_ONLY''])]"

definition DynamoDBStreamChangeRecordBase :: zschema where
  "DynamoDBStreamChangeRecordBase = z_object DynamoDBStreamChangeRecordBase_shape"

definition DynamoDBStreamToKinesisChangeRecord_shape :: "(string \<times> zschema) list" where
  "DynamoDBStreamToKinesisChangeRecord_shape =
     z_omit [''SequenceNumber'', ''StreamViewType''] DynamoDBStreamChangeRecordBase_shape"

definition DynamoDBStreamToKinesisChangeRecord :: zschema where
  "DynamoDBStreamToKinesisChangeRecord = z_object DynamoDBStreamToKinesisChangeRecord_shape"

text \<open>
  The inner function of the transform: the \<open>try\<close> returns what \<open>um\<close> returns; the
  \<open>catch\<close> adds one issue to the context and returns \<open>z.NEVER\<close> (\<open>None\<close>).
\<close>

definition unmarshallAttributeValue ::
  "(jsval \<Rightarrow> jsval option) \<Rightarrow> string \<Rightarrow> jsval \<Rightarrow> issue list \<Rightarrow> jsval option \<times> issue list" where
  "unmarshallAttributeValue um imageName img ctx =
     (case um img of
        Some unmarshalled \<Rightarrow> (Some unmarshalled, ctx)
      | None \<Rightarrow>
          (None,
           ctx @ [\<lparr> code = ''custom'', expected = None,
                    message = ''Could not unmarshall '' @ imageName @ '' in DynamoDB stream record'',
                    path = [Key imageName], fatal = True \<rparr>]))"

text \<open>
  The block \<open>if (object.X) { ... result.X = unmarshalled }\<close> the transform has for
  \<open>NewImage\<close> and for \<open>OldImage\<close>; \<open>None\<close> is its \<open>return z.NEVER\<close>.
\<close>

definition unmarshallImage ::
  "(jsval \<Rightarrow> jsval option) \<Rightarrow> string \<Rightarrow> props \<Rightarrow> props \<Rightarrow> issue list \<Rightarrow> props option \<times> issue list" where
  "unmarshallImage um imageName object result ctx =
     (if truthy (get_prop object imageName) then
        (case unmarshallAttributeValue um imageName (get_prop object imageName) ctx of
           (None, ctx') \<Rightarrow> (None, ctx')
         | (Some unmarshalled, ctx') \<Rightarrow> (Some (set_prop result imageName unmarshalled), ctx'))
      else (Some result, ctx))"

text \<open>
  The transform. \<open>result\<close> starts as the copy \<open>{ ...object }\<close>; \<open>Keys\<close> is always
  unmarshalled, \<open>NewImage\<close> and \<open>OldImage\<close> when the record has them; the first failure
  returns \<open>z.NEVER\<close>.
\<close>

definition unmarshallDynamoDBTransform :: "(jsval \<Rightarrow> jsval option) \<Rightarrow> refinement" where
  "unmarshallDynamoDBTransform um obj ctx =
     (let object = props_of obj; result = object in
      case unmarshallAttributeValue um ''Keys'' (get_prop object ''Keys'') ctx of
        (None, ctx1) \<Rightarrow> (None, ctx1)
      | (Some unmarshalledKeys, ctx1) \<Rightarrow>
          (case unmarshallImage um ''NewImage'' object
                  (set_prop result ''Keys'' unmarshalledKeys) ctx1 of
             (None, ctx2) \<Rightarrow> (None, ctx2)
           | (Some result2, ctx2) \<Rightarrow>
               (case unmarshallImage um ''OldImage'' object result2 ctx2 of
                  (None, ctx3) \<Rightarrow> (None, ctx3)
                | (Some result3, ctx3) \<Rightarrow> (Some (JObj result3), ctx3))))"

definition DynamoDBStreamChangeRecord :: "(jsval \<Rightarrow> jsval option) \<Rightarrow> zschema" where
  "DynamoDBStreamChangeRecord um =
     z_transform DynamoDBStreamChangeRecordBase (unmarshallDynamoDBTransform um)"

definition UserIdentity_shape :: "(string \<times> zschema) list" where
  "UserIdentity_shape =
     [(''type'', z_enum [''Service'']),
      (''principalId'', z_literal ''dynamodb.amazonaws.com'')]"

definition UserIdentity :: zschema where
  "UserIdentity = z_object UserIdentity_shape"

definition DynamoDBStreamRecord_shape :: "(jsval \<Rightarrow> jsval option) \<Rightarrow> (string \<times> zschema) list" where
  "DynamoDBStreamRecord_shape um =
     [(''eventID'', z_string),
      (''eventName'', z_enum [''INSERT'', ''MODIFY'', ''REMOVE'']),
      (''eventVersion'', z_string),
      (''eventSource'', z_literal ''aws:dynamodb''),
      (''awsRegion'', z_string),
      (''eventSourceARN'', z_string),
      (''dynamodb'', DynamoDBStreamChangeRecord um),
      (''userIdentity'', z_optional UserIdentity)]"

definition DynamoDBStreamRecord :: "(jsval \<Rightarrow> jsval option) \<Rightarrow> zschema" where
  "DynamoDBStreamRecord um = z_object (DynamoDBStreamRecord_shape um)"

definition DynamoDBStreamToKinesisRecord :: "(jsval \<Rightarrow> jsval option) \<Rightarrow> zschema" where
  "DynamoDBStreamToKinesisRecord um =
     z_object
       (z_omit [''eventVersion'', ''eventSourceARN'']
          (z_extend (DynamoDBStreamRecord_shape um)
             [(''recordFormat'', z_literal ''application/json''),
              (''tableName'', z_string),
              (''userIdentity'', z_nullish UserIdentity),
              (''dynamodb'',
                 z_transform DynamoDBStreamToKinesisChangeRecord
                   (unmarshallDynamoDBTransform um))]))"

definition DynamoDBStreamSchema_shape ::
  "(jsval \<Rightarrow> jsval option) \<Rightarrow> (string \<Rightarrow> bool) \<Rightarrow> (string \<times> zschema) list" where
  "DynamoDBStreamSchema_shape um isDatetime =
     [(''Records'', z_nonempty (z_array (DynamoDBStreamRecord um))),
      (''window'',
         z_optional (z_object [(''start'', z_iso_datetime isDatetime),
                               (''end'', z_iso_datetime isDatetime)])),
      (''state'', z_optional (z_record z_string)),
      (''shardId'', z_optional z_string),
      (''eventSourceARN'', z_optional z_string),
      (''isFinalInvokeForWindow'', z_optional z_boolean),
      (''isWindowTerminatedEarly'', z_optional z_boolean)]"

definition DynamoDBStreamSchema :: "(jsval \<Rightarrow> jsval option) \<Rightarrow> (string \<Rightarrow> bool) \<Rightarrow> zschema" where
  "DynamoDBStreamSchema um isDatetime = z_object (DynamoDBStreamSchema_shape um isDatetime)"

section \<open>The transform on a store of objects\<close>

text \<open>
  The transform receives a reference to the record object, copies the record with
  \<open>{ ...object }\<close> and assigns to properties of the copy. To say what it does to the
  object of its caller, objects live in a store: a reference is an index into the list
  of the objects allocated so far, and an allocation appends. The value of a property is
  held as a tree, so the store records which object an assignment writes to; the
  attribute maps are read by \<open>um\<close> only. A reference a program holds is to an allocated
  object: the statements about the store are for references below its length.
\<close>

type_synonym ref = nat
type_synonym store = "props list"

text \<open>\<open>{ ...object }\<close>: a new object with the own properties of \<open>object\<close>.\<close>

definition spread :: "store \<Rightarrow> ref \<Rightarrow> store \<times> ref" where
  "spread h object = (h @ [h ! object], length h)"

text \<open>\<open>r.key\<close> and \<open>r.key = v\<close> through a reference.\<close>

definition read_prop :: "store \<Rightarrow> ref \<Rightarrow> string \<Rightarrow> jsval" where
  "read_prop h r k = get_prop (h ! r) k"

definition write_prop :: "store \<Rightarrow> ref \<Rightarrow> string \<Rightarrow> jsval \<Rightarrow> store" where
  "write_prop h r k v = h[r := set_prop (h ! r) k v]"

text \<open>
  The block \<open>if (object.X) { ... result.X = unmarshalled }\<close>; the flag is \<open>False\<close> when
  the block returns \<open>z.NEVER\<close>.
\<close>

definition unmarshallImage_store ::
  "(jsval \<Rightarrow> jsval option) \<Rightarrow> string \<Rightarrow> ref \<Rightarrow> ref \<Rightarrow> store \<Rightarrow> issue list
     \<Rightarrow> bool \<times> store \<times> issue list" where
  "unmarshallImage_store um imageName object result h ctx =
     (if truthy (read_prop h object imageName) then
        (case unmarshallAttributeValue um imageName (read_prop h object imageName) ctx of
           (None, ctx') \<Rightarrow> (False, h, ctx')
         | (Some unmarshalled, ctx') \<Rightarrow> (True, write_prop h result imageName unmarshalled, ctx'))
      else (True, h, ctx))"

text \<open>
  The transform: from the store, the reference to the record and the issues of the
  context, to the store it leaves, the reference it returns (\<open>None\<close> for \<open>z.NEVER\<close>)
  and the issues of the context.
\<close>

definition unmarshallDynamoDBTransform_store ::
  "(jsval \<Rightarrow> jsval option) \<Rightarrow> store \<Rightarrow> ref \<Rightarrow> issue list \<Rightarrow> store \<times> ref option \<times> issue list" where
  "unmarshallDynamoDBTransform_store um h object ctx =
     (case spread h object of
        (h0, result) \<Rightarrow>
          (case unmarshallAttributeValue um ''Keys'' (read_prop h0 object ''Keys'') ctx of
             (None, ctx1) \<Rightarrow> (h0, None, ctx1)
           | (Some unmarshalledKeys, ctx1) \<Rightarrow>
               (case unmarshallImage_store um ''NewImage'' object result
                       (write_prop h0 result ''Keys'' unmarshalledKeys) ctx1 of
                  (False, h2, ctx2) \<Rightarrow> (h2, None, ctx2)
                | (True, h2, ctx2) \<Rightarrow>
                    (case unmarshallImage_store um ''OldImage'' object result h2 ctx2 of
                       (False, h3, ctx3) \<Rightarrow> (h3, None, ctx3)
                     | (True, h3, ctx3) \<Rightarrow> (h3, Some result, ctx3)))))"

section \<open>Envelopes and the parse result boundary\<close>

text \<open>
  Modelled from the spec: \<open>ParseError\<close> of \<open>errors.ts\<close>, which is not among the sources
  (spec 4.4: a message and a cause that holds the issues of the validation).
\<close>

datatype ParseError = ParseError (err_message: string) (err_cause: "issue list")

text \<open>
  Modelled from the spec: the outcome of \<open>safeParse\<close>, whose type is not among the
  sources (spec 3, 4.3 and 6: \<open>{success: true, data}\<close> or
  \<open>{success: false, error, originalEvent}\<close>).
\<close>

datatype ParsedResult =
    success: Success (data: jsval)
  | Failure (error: ParseError) (originalEvent: jsval)

text \<open>
  Modelled from the spec: an envelope (\<open>envelopes/*.ts\<close>, not among the sources). Spec 3
  and 4.3: an envelope owns no state; it is a pure function of the raw event and the
  schema of the caller, the one underlying validation routine, and it has a kind that
  its error message names.
\<close>

record envelope =
  kind :: string
  validate :: "zschema \<Rightarrow> zschema"

text \<open>
  Modelled from the spec: \<open>safeParse\<close> of an envelope (spec 4.3 and 6; the message is the
  one the test of the API Gateway HTTP envelope expects,
  \<open>Failed to parse API Gateway HTTP body\<close>). It never throws; on any failure it
  returns the error and the event it was given.
\<close>

definition safeParse :: "envelope \<Rightarrow> jsval \<Rightarrow> zschema \<Rightarrow> ParsedResult" where
  "safeParse env event schema =
     (case validate env schema event of
        (iss, v) \<Rightarrow>
          if iss \<noteq> [] then
            Failure (ParseError (''Failed to parse '' @ kind env @ '' body'') iss) event
          else Success v)"

text \<open>
  Modelled from the spec: \<open>parse\<close> of an envelope (spec 4.4: \<open>parse\<close> is \<open>safeParse\<close> with
  the failure branch converted to a thrown error). \<open>Inl\<close> is the thrown error.
\<close>

definition parse :: "envelope \<Rightarrow> jsval \<Rightarrow> zschema \<Rightarrow> ParseError + jsval" where
  "parse env event schema =
     (case safeParse env event schema of
        Failure e _ \<Rightarrow> Inl e
      | Success d \<Rightarrow> Inr d)"

text \<open>
  Modelled from the spec: the API Gateway HTTP envelope (\<open>envelopes/api-gatewayv2.ts\<close>, not
  among the sources; spec 3: a single payload in the body field of the request). The
  schema of the gateway event is not among the sources either: its shape is the
  parameter \<open>outer\<close>, in which the schema of the caller takes the place of the body.
\<close>

definition ApiGatewayV2Envelope :: "(string \<times> zschema) list \<Rightarrow> envelope" where
  "ApiGatewayV2Envelope outer =
     \<lparr> kind = ''API Gateway HTTP'',
       validate = (\<lambda>schema event.
         case z_object (z_extend outer [(''body'', schema)]) event of
           (iss, v) \<Rightarrow> (iss, get_prop (props_of v) ''body'')) \<rparr>"

text \<open>
  Modelled from the spec: the place of the payload in a record of a batch envelope, a
  path of property names (spec 4.3: the envelope locates each payload occurrence).
\<close>

fun payload_at :: "string list \<Rightarrow> jsval \<Rightarrow> jsval" where
  "payload_at [] v = v"
| "payload_at (k # ks) v = payload_at ks (get_prop (props_of v) k)"

text \<open>
  Modelled from the spec: the issues of the payload of a record, under the path of the
  payload in the event (spec 3: every path is resolvable against the event).
\<close>

definition prefixPath :: "pkey list \<Rightarrow> issue list \<Rightarrow> issue list" where
  "prefixPath ks iss = foldr prefixIssues ks iss"

text \<open>
  Modelled from the spec: the validation routine of a batch envelope (spec 4.3). It
  validates the outer shape, then applies the schema of the caller to the payload of
  every record, in order; the result is the sequence of the validated values, and one
  failing record fails the call (all or nothing).
\<close>

definition batch_validate :: "zschema \<Rightarrow> string \<Rightarrow> string list \<Rightarrow> zschema \<Rightarrow> zschema" where
  "batch_validate outer recordsKey payloadPath schema event =
     (case outer event of
        (iss, v) \<Rightarrow>
          if iss \<noteq> [] then (iss, v)
          else
            (case get_prop (props_of v) recordsKey of
               JArr records \<Rightarrow>
                 (let rs = map (\<lambda>r. schema (payload_at payloadPath r)) records
                  in (prefixIssues (Key recordsKey)
                        (array_issues
                           (map (\<lambda>r. (prefixPath (map Key payloadPath) (fst r), snd r)) rs)),
                      JArr (map snd rs)))
             | other \<Rightarrow> ([invalid_type ''array'' other], other)))"

text \<open>
  Modelled from the spec: the stream envelope (\<open>envelopes/dynamodb.ts\<close>, not among the
  sources; spec 3: a list of records, each with a structured change payload). Its outer
  shape is the stream event schema of the source.
\<close>

definition DynamoDBStreamEnvelope :: "(jsval \<Rightarrow> jsval option) \<Rightarrow> (string \<Rightarrow> bool) \<Rightarrow> envelope" where
  "DynamoDBStreamEnvelope um isDatetime =
     \<lparr> kind = ''DynamoDB Stream'',
       validate = batch_validate (DynamoDBStreamSchema um isDatetime) ''Records'' [''dynamodb''] \<rparr>"

section \<open>Example events\<close>

text \<open>
  The change record of scenario A of the spec (8): the first record of the example in
  the documentation of \<open>DynamoDBStreamSchema\<close>, with the message \<open>hi\<close>.
\<close>

definition scenario_A_Keys :: jsval where
  "scenario_A_Keys = JObj [(''Id'', JObj [(''N'', JStr ''101'')])]"

definition scenario_A_NewImage :: jsval where
  "scenario_A_NewImage =
     JObj [(''Message'', JObj [(''S'', JStr ''hi'')]), (''Id'', JObj [(''N'', JStr ''101'')])]"

definition scenario_A_record :: jsval where
  "scenario_A_record =
     JObj [(''Keys'', scenario_A_Keys),
           (''NewImage'', scenario_A_NewImage),
           (''SequenceNumber'', JStr ''111''),
           (''SizeBytes'', JNum 26),
           (''StreamViewType'', JStr ''NEW_AND_OLD_IMAGES'')]"

text \<open>The change record of scenario B: the same record, its key with two kind tags.\<close>

definition scenario_B_record :: jsval where
  "scenario_B_record =
     JObj [(''Keys'', JObj [(''Id'', JObj [(''N'', JStr ''101''), (''S'', JStr ''x'')])]),
           (''NewImage'', scenario_A_NewImage),
           (''SequenceNumber'', JStr ''111''),
           (''SizeBytes'', JNum 26),
           (''StreamViewType'', JStr ''NEW_AND_OLD_IMAGES'')]"

text \<open>A stream record around a change record, with the fields of the documented example.\<close>

definition stream_record :: "string \<Rightarrow> string \<Rightarrow> jsval \<Rightarrow> jsval" where
  "stream_record eventID eventName change =
     JObj [(''eventID'', JStr eventID),
           (''eventName'', JStr eventName),
           (''eventVersion'', JStr ''1.0''),
           (''eventSource'', JStr ''aws:dynamodb''),
           (''awsRegion'', JStr ''us-east-1''),
           (''dynamodb'', change),
           (''eventSourceARN'', JStr ''stream-ARN'')]"

definition stream_event :: "jsval list \<Rightarrow> jsval" where
  "stream_event records =
     JObj [(''Records'', JArr records),
           (''shardId'', JStr ''shard123456789''),
           (''eventSourceARN'', JStr ''stream-ARN''),
           (''isFinalInvokeForWindow'', JBool False),
           (''isWindowTerminatedEarly'', JBool False)]"

text \<open>
  The event of the test \<open>returns an error if the event is not a valid API Gateway HTTP
  event\<close>, as far as the test reads it: a request with neither \<open>rawPath\<close> nor \<open>body\<close>.
\<close>

definition gateway_event_without_rawPath :: jsval where
  "gateway_event_without_rawPath =
     JObj [(''version'', JStr ''2.0''),
           (''routeKey'', JStr ''GET /my/path''),
           (''isBase64Encoded'', JBool False)]"

text \<open>
  The first change record of the documented example: the view type is
  \<open>NEW_AND_OLD_IMAGES\<close> and there is no old image.
\<close>

definition documented_insert_record :: jsval where
  "documented_insert_record =
     JObj [(''Keys'', JObj [(''Id'', JObj [(''N'', JStr ''101'')])]),
           (''NewImage'',
              JObj [(''Message'', JObj [(''S'', JStr ''New item!'')]),
                    (''Id'', JObj [(''N'', JStr ''101'')])]),
           (''SequenceNumber'', JStr ''111''),
           (''SizeBytes'', JNum 26),
           (''StreamViewType'', JStr ''NEW_AND_OLD_IMAGES'')]"

text \<open>A change record of view type \<open>KEYS_ONLY\<close> that carries both images.\<close>

definition keys_only_record_with_images :: jsval where
  "keys_only_record_with_images =
     JObj [(''Keys'', JObj [(''Id'', JObj [(''N'', JStr ''101'')])]),
           (''NewImage'', JObj [(''Id'', JObj [(''N'', JStr ''101'')])]),
           (''OldImage'', JObj [(''Id'', JObj [(''N'', JStr ''101'')])]),
           (''SequenceNumber'', JStr ''111''),
           (''SizeBytes'', JNum 26),
           (''StreamViewType'', JStr ''KEYS_ONLY'')]"

text \<open>
  Modelled from the spec: the schema of the gateway event is not among the sources. These
  are the fields of it that the spec (8, scenarios D and E) and the test name, for the
  parameter \<open>outer\<close> of the gateway envelope: the path field, a string, and the body.
\<close>

definition gateway_shape :: "(string \<times> zschema) list" where
  "gateway_shape = [(''rawPath'', z_string), (''body'', z_optional z_string)]"

text \<open>The schema of the tests, \<open>z.object({ message: z.string() })\<close>.\<close>

definition message_schema :: zschema where
  "message_schema = z_object [(''message'', z_string)]"

section \<open>Properties of objects\<close>

lemma get_prop_set_prop:
  "get_prop (set_prop ps k v) k' = (if k' = k then v else get_prop ps k')"
  by (induction ps k v rule: set_prop.induct) (auto simp: get_prop_def)

lemma keys_set_prop: "set (map fst (set_prop ps k v)) = insert k (set (map fst ps))"
  by (induction ps k v rule: set_prop.induct) auto

lemma has_prop_set_prop: "has_prop (set_prop ps k v) k' = (k' = k \<or> has_prop ps k')"
  unfolding has_prop_def keys_set_prop by auto

lemma filter_set_prop:
  "\<not> P k \<Longrightarrow> filter (\<lambda>(k', v'). P k') (set_prop ps k v) = filter (\<lambda>(k', v'). P k') ps"
  by (induction ps k v rule: set_prop.induct) auto

lemma get_prop_filter: "P k \<Longrightarrow> get_prop (filter (\<lambda>(k', v). P k') ps) k = get_prop ps k"
  by (induction ps) (auto simp: get_prop_def)

lemma has_prop_filter: "P k \<Longrightarrow> has_prop (filter (\<lambda>(k', v). P k') ps) k = has_prop ps k"
  by (induction ps) (auto simp: has_prop_def)

lemma get_prop_absent: "\<not> has_prop ps k \<Longrightarrow> get_prop ps k = JUndefined"
  by (induction ps) (auto simp: get_prop_def has_prop_def)

section \<open>The unmarshalling transform\<close>

lemma unmarshallAttributeValue_Some:
  "um img = Some u \<Longrightarrow> unmarshallAttributeValue um n img ctx = (Some u, ctx)"
  by (simp add: unmarshallAttributeValue_def)

lemma unmarshallAttributeValue_None:
  "um img = None \<Longrightarrow>
   unmarshallAttributeValue um n img ctx =
     (None,
      ctx @ [\<lparr> code = ''custom'', expected = None,
               message = ''Could not unmarshall '' @ n @ '' in DynamoDB stream record'',
               path = [Key n], fatal = True \<rparr>])"
  by (simp add: unmarshallAttributeValue_def)

lemma unmarshallImage_filter:
  assumes "unmarshallImage um n object result ctx = (Some result', ctx')" and "\<not> P n"
  shows "filter (\<lambda>(k, v). P k) result' = filter (\<lambda>(k, v). P k) result"
  using assms filter_set_prop [of P n]
  by (auto simp: unmarshallImage_def split: if_splits prod.splits option.splits)

text \<open>The properties the transform does not assign to are in its result as they were.\<close>

lemma transform_filter:
  assumes "unmarshallDynamoDBTransform um (JObj ps) ctx = (Some y, ctx')"
    and "\<not> P ''Keys''" "\<not> P ''NewImage''" "\<not> P ''OldImage''"
  shows "\<exists>x. y = JObj x \<and> filter (\<lambda>(k, v). P k) x = filter (\<lambda>(k, v). P k) ps"
proof -
  from assms(1) obtain ks c1 r2 c2 r3 where
    n: "unmarshallImage um ''NewImage'' ps (set_prop ps ''Keys'' ks) c1 = (Some r2, c2)"
    and o: "unmarshallImage um ''OldImage'' ps r2 c2 = (Some r3, ctx')"
    and y: "y = JObj r3"
    by (auto simp: unmarshallDynamoDBTransform_def Let_def split: prod.splits option.splits)
  have "filter (\<lambda>(k, v). P k) r3 = filter (\<lambda>(k, v). P k) r2"
    using unmarshallImage_filter [where P = P, OF o assms(4)] .
  also have "\<dots> = filter (\<lambda>(k, v). P k) (set_prop ps ''Keys'' ks)"
    using unmarshallImage_filter [where P = P, OF n assms(3)] .
  also have "\<dots> = filter (\<lambda>(k, v). P k) ps"
    using filter_set_prop [where P = P, OF assms(2)] .
  finally show ?thesis using y by simp
qed

subsection \<open>The transform on the store\<close>

lemma write_prop_last: "write_prop (h @ [x]) (length h) k v = h @ [set_prop x k v]"
  by (simp add: write_prop_def)

lemma read_prop_old: "a < length h \<Longrightarrow> read_prop (h @ [x]) a k = get_prop (h ! a) k"
  by (simp add: read_prop_def nth_append)

lemma unmarshallImage_store_eq:
  assumes "object < length h"
  shows "unmarshallImage_store um n object (length h) (h @ [x]) ctx =
    (case unmarshallImage um n (h ! object) x ctx of
       (None, ctx') \<Rightarrow> (False, h @ [x], ctx')
     | (Some x', ctx') \<Rightarrow> (True, h @ [x'], ctx'))"
  using assms
  by (auto simp: unmarshallImage_store_def unmarshallImage_def read_prop_old write_prop_last
      split: prod.splits option.splits)

text \<open>
  The transform on the store computes what the transform on values computes: it leaves
  the store it was given with one more object, and the reference it returns is to that
  object, which holds the result.
\<close>

lemma transform_store_eq:
  assumes "object < length h"
  shows "\<exists>x. unmarshallDynamoDBTransform_store um h object ctx =
      (h @ [x],
       map_option (\<lambda>_. length h) (fst (unmarshallDynamoDBTransform um (JObj (h ! object)) ctx)),
       snd (unmarshallDynamoDBTransform um (JObj (h ! object)) ctx))
    \<and> (\<forall>y. fst (unmarshallDynamoDBTransform um (JObj (h ! object)) ctx) = Some y
          \<longrightarrow> y = JObj x)"
  using assms
  by (auto simp: unmarshallDynamoDBTransform_store_def unmarshallDynamoDBTransform_def
      spread_def read_prop_old write_prop_last unmarshallImage_store_eq Let_def
      split: prod.splits option.splits bool.splits)

text \<open>
  Claim C9. The transform never mutates its argument. For every store \<open>h\<close> and every
  reference \<open>object\<close> into it, the store \<open>h'\<close> after the call begins with \<open>h\<close>: every
  object that existed before the call, the record of the caller with its marshalled
  \<open>Keys\<close>, \<open>NewImage\<close> and \<open>OldImage\<close> among them, is as it was. A result is a new object,
  other than the argument, and every property of the record but \<open>Keys\<close>, \<open>NewImage\<close> and
  \<open>OldImage\<close> is in the result unchanged, in the same order.
\<close>

theorem C9_transform_never_mutates_its_argument:
  assumes "object < length h"
    and "unmarshallDynamoDBTransform_store um h object ctx = (h', r, ctx')"
  shows "take (length h) h' = h \<and> h' ! object = h ! object \<and>
    (\<forall>res. r = Some res \<longrightarrow>
       res = length h \<and> res \<noteq> object \<and> res < length h' \<and>
       filter (\<lambda>(k, v). k \<notin> {''Keys'', ''NewImage'', ''OldImage''}) (h' ! res) =
       filter (\<lambda>(k, v). k \<notin> {''Keys'', ''NewImage'', ''OldImage''}) (h ! object) \<and>
       (\<forall>k. k \<notin> {''Keys'', ''NewImage'', ''OldImage''} \<longrightarrow>
          get_prop (h' ! res) k = get_prop (h ! object) k \<and>
          has_prop (h' ! res) k = has_prop (h ! object) k))"
proof -
  let ?t = "unmarshallDynamoDBTransform um (JObj (h ! object)) ctx"
  let ?P = "\<lambda>k. k \<notin> {''Keys'', ''NewImage'', ''OldImage''}"
  from transform_store_eq [OF assms(1), of um ctx] assms(2)
  obtain x where h': "h' = h @ [x]"
    and r: "r = map_option (\<lambda>_. length h) (fst ?t)"
    and x: "\<forall>y. fst ?t = Some y \<longrightarrow> y = JObj x"
    by auto
  have frame: "take (length h) h' = h" "h' ! object = h ! object"
    using h' assms(1) by (simp_all add: nth_append)
  have res: "filter (\<lambda>(k, v). ?P k) x = filter (\<lambda>(k, v). ?P k) (h ! object)"
    if "r = Some res" for res
  proof -
    from that r obtain y where y: "fst ?t = Some y" by auto
    then have "?t = (Some y, snd ?t)" by (metis prod.collapse)
    from transform_filter [where P = ?P, OF this] x y show ?thesis by auto
  qed
  have props: "get_prop x k = get_prop (h ! object) k \<and> has_prop x k = has_prop (h ! object) k"
    if "r = Some res" "?P k" for res k
    using res [OF that(1)] get_prop_filter [of ?P k] has_prop_filter [of ?P k] that(2)
    by metis
  show ?thesis
    using frame res props r h' assms(1) by auto
qed

text \<open>
  The record of scenario A, alone in the store: the call leaves it at reference 0 with
  its marshalled key, and returns reference 1, the unmarshalled copy.
\<close>

theorem C9_transform_never_mutates_its_argument_witness:
  "fst (snd (unmarshallDynamoDBTransform_store unmarshallDynamoDB
               [props_of scenario_A_record] 0 [])) = Some 1 \<and>
   take 1 (fst (unmarshallDynamoDBTransform_store unmarshallDynamoDB
                  [props_of scenario_A_record] 0 [])) = [props_of scenario_A_record] \<and>
   get_prop (fst (unmarshallDynamoDBTransform_store unmarshallDynamoDB
                    [props_of scenario_A_record] 0 []) ! 0) ''Keys'' = scenario_A_Keys \<and>
   get_prop (fst (unmarshallDynamoDBTransform_store unmarshallDynamoDB
                    [props_of scenario_A_record] 0 []) ! 1) ''Keys'' = JObj [(''Id'', JNum 101)] \<and>
   get_prop (fst (unmarshallDynamoDBTransform_store unmarshallDynamoDB
                    [props_of scenario_A_record] 0 []) ! 1) ''SizeBytes'' = JNum 26"
proof -
  let ?h = "[props_of scenario_A_record]"
  let ?T = "unmarshallDynamoDBTransform_store unmarshallDynamoDB ?h 0 []"
  have b: "(0::nat) < length ?h" by simp
  have run: "?T = (fst ?T, fst (snd ?T), snd (snd ?T))" by simp
  have r: "fst (snd ?T) = Some 1" by code_simp
  have k0: "get_prop (?h ! 0) ''Keys'' = scenario_A_Keys" by code_simp
  have k1: "get_prop (fst ?T ! 1) ''Keys'' = JObj [(''Id'', JNum 101)]" by code_simp
  have s0: "get_prop (?h ! 0) ''SizeBytes'' = JNum 26" by code_simp
  from C9_transform_never_mutates_its_argument [OF b run] r
  have "take (length ?h) (fst ?T) = ?h" "fst ?T ! 0 = ?h ! 0"
    "get_prop (fst ?T ! 1) ''SizeBytes'' = get_prop (?h ! 0) ''SizeBytes''"
    by simp_all
  with r k0 k1 s0 show ?thesis by simp
qed

section \<open>The validation library\<close>

lemma prefixIssues_Nil_iff: "prefixIssues k iss = [] \<longleftrightarrow> iss = []"
  by (simp add: prefixIssues_def)

lemma set_prefixIssues: "set (prefixIssues k iss) = (\<lambda>i. i\<lparr> path := k # path i \<rparr>) ` set iss"
  by (simp add: prefixIssues_def)

lemma object_issues_Nil: "object_issues [] = []"
  by (simp add: object_issues_def)

lemma object_issues_Cons:
  "object_issues ((k, r) # rs) = prefixIssues (Key k) (fst r) @ object_issues rs"
  by (simp add: object_issues_def)

lemma object_results_Nil: "object_results [] ps = []"
  by (simp add: object_results_def)

lemma object_results_Cons:
  "object_results ((k, s) # shape) ps = (k, s (get_prop ps k)) # object_results shape ps"
  by (simp add: object_results_def)

lemma object_value_Nil: "object_value ps [] = []"
  by (simp add: object_value_def)

lemma object_value_Cons:
  "object_value ps ((k, r) # rs) =
     (if snd r = JUndefined then (if has_prop ps k then [(k, JUndefined)] else [])
      else [(k, snd r)]) @ object_value ps rs"
  by (simp add: object_value_def)

lemma get_prop_append:
  "get_prop (ps @ qs) k = (if has_prop ps k then get_prop ps k else get_prop qs k)"
  by (induction ps) (auto simp: get_prop_def has_prop_def)

lemma keys_object_value: "(k, v) \<in> set (object_value ps rs) \<Longrightarrow> k \<in> fst ` set rs"
  by (induction rs) (auto simp: object_value_Nil object_value_Cons split: if_splits)

lemma has_prop_object_value:
  "has_prop (object_value ps rs) k \<Longrightarrow> k \<in> set (map fst rs)"
  using keys_object_value [of k _ ps rs] by (auto simp: has_prop_def)

lemma get_prop_object_value_other:
  "k \<notin> set (map fst rs) \<Longrightarrow> get_prop (object_value ps rs) k = JUndefined"
  using has_prop_object_value get_prop_absent by blast

lemma get_prop_object_value_hd:
  "k \<notin> set (map fst rs) \<Longrightarrow> get_prop (object_value ps ((k, r) # rs)) k = snd r"
  by (auto simp: object_value_Cons get_prop_append get_prop_object_value_other)
     (auto simp: get_prop_def has_prop_def)

lemma get_prop_object_value_tl:
  "k \<noteq> k' \<Longrightarrow> get_prop (object_value ps ((k', r) # rs)) k = get_prop (object_value ps rs) k"
  by (auto simp: object_value_Cons get_prop_append has_prop_def)

lemma array_issues_Nil: "array_issues [] = []"
  by (simp add: array_issues_def)

lemma array_issues_snoc:
  "array_issues (rs @ [r]) = array_issues rs @ prefixIssues (Index (length rs)) (fst r)"
  by (simp add: array_issues_def)

lemma array_issues_Nil_iff: "array_issues rs = [] \<longleftrightarrow> (\<forall>r \<in> set rs. fst r = [])"
  by (induction rs rule: rev_induct)
     (auto simp: array_issues_Nil array_issues_snoc prefixIssues_Nil_iff)

lemma z_array_success:
  assumes "fst (z_array element input) = []"
  shows "\<exists>xs. input = JArr xs \<and> snd (z_array element input) = JArr (map (\<lambda>x. snd (element x)) xs)
    \<and> (\<forall>x \<in> set xs. fst (element x) = [])"
  using assms
  by (cases input) (auto simp: z_array_def array_results_def array_issues_Nil_iff Let_def)

lemma z_nonempty_success:
  assumes "fst (z_nonempty inner input) = []"
  shows "fst (inner input) = [] \<and> snd (z_nonempty inner input) = snd (inner input)
    \<and> (\<forall>xs. snd (inner input) = JArr xs \<longrightarrow> xs \<noteq> [])"
  using assms
  by (auto simp: z_nonempty_def split: prod.splits jsval.splits if_splits)

lemma stream_schema_success:
  assumes "fst (DynamoDBStreamSchema um isD event) = []"
  shows "\<exists>ps xs. event = JObj ps \<and> get_prop ps ''Records'' = JArr xs \<and> xs \<noteq> []
    \<and> (\<forall>x \<in> set xs. fst (DynamoDBStreamRecord um x) = [])
    \<and> get_prop (props_of (snd (DynamoDBStreamSchema um isD event))) ''Records'' =
        JArr (map (\<lambda>x. snd (DynamoDBStreamRecord um x)) xs)"
proof -
  let ?R = "z_nonempty (z_array (DynamoDBStreamRecord um))"
  have obj: "\<exists>ps. event = JObj ps \<and> fst (?R (get_prop ps ''Records'')) = []
     \<and> get_prop (props_of (snd (DynamoDBStreamSchema um isD event))) ''Records''
        = snd (?R (get_prop ps ''Records''))"
  proof (cases event)
    case (JObj ps)
    have "fst (?R (get_prop ps ''Records'')) = []"
      using assms unfolding JObj
      by (simp add: DynamoDBStreamSchema_def DynamoDBStreamSchema_shape_def z_object_def
          z_object_props_def object_results_Cons object_issues_Cons prefixIssues_Nil_iff Let_def)
    moreover have "get_prop (props_of (snd (DynamoDBStreamSchema um isD event))) ''Records''
        = snd (?R (get_prop ps ''Records''))"
      unfolding JObj
      by (simp add: DynamoDBStreamSchema_def DynamoDBStreamSchema_shape_def z_object_def
          z_object_props_def object_results_Cons object_results_Nil get_prop_object_value_hd
          Let_def)
    ultimately show ?thesis using JObj by simp
  next
    case (JSet xs)
    have "fst (?R JUndefined) \<noteq> []"
      by (simp add: z_nonempty_def z_array_def)
    then show ?thesis using assms unfolding JSet
      by (simp add: DynamoDBStreamSchema_def DynamoDBStreamSchema_shape_def z_object_def
          z_object_props_def object_results_Cons object_issues_Cons prefixIssues_Nil_iff get_prop_def
          Let_def)
  qed (use assms in \<open>simp_all add: DynamoDBStreamSchema_def z_object_def\<close>)
  then obtain ps where ps: "event = JObj ps" "fst (?R (get_prop ps ''Records'')) = []"
    "get_prop (props_of (snd (DynamoDBStreamSchema um isD event))) ''Records''
        = snd (?R (get_prop ps ''Records''))" by blast
  from z_nonempty_success [OF ps(2)] have
    a: "fst (z_array (DynamoDBStreamRecord um) (get_prop ps ''Records'')) = []"
    and v: "snd (?R (get_prop ps ''Records'')) = snd (z_array (DynamoDBStreamRecord um) (get_prop ps ''Records''))"
    and ne: "\<forall>xs. snd (z_array (DynamoDBStreamRecord um) (get_prop ps ''Records'')) = JArr xs \<longrightarrow> xs \<noteq> []"
    by auto
  from z_array_success [OF a] obtain xs where xs: "get_prop ps ''Records'' = JArr xs"
    "snd (z_array (DynamoDBStreamRecord um) (get_prop ps ''Records'')) = JArr (map (\<lambda>x. snd (DynamoDBStreamRecord um x)) xs)"
    "\<forall>x \<in> set xs. fst (DynamoDBStreamRecord um x) = []" by blast
  from ne xs(2) have "xs \<noteq> []" by auto
  with ps xs v show ?thesis by auto
qed


text \<open>
  Claim C10. \<open>DynamoDBStreamSchema\<close> rejects every event whose \<open>Records\<close> array is
  empty, whatever its other fields are: the validation fails, with the issue of the
  \<open>nonempty\<close> check at the path \<open>Records\<close>. So a successful parse of a stream event
  yields at least one record.
\<close>

theorem C10_stream_schema_rejects_empty_Records:
  "(get_prop ps ''Records'' = JArr [] \<longrightarrow>
      (\<exists>iss. z_safeParse (DynamoDBStreamSchema um isD) (JObj ps) = ZFailure iss \<and>
         (too_small ''array'' ''items'')\<lparr> path := [Key ''Records''] \<rparr> \<in> set iss))
   \<and> (z_safeParse (DynamoDBStreamSchema um isD) event = ZSuccess v \<longrightarrow>
      (\<exists>x xs. get_prop (props_of v) ''Records'' = JArr (x # xs)))"
proof (intro conjI impI)
  assume e: "get_prop ps ''Records'' = JArr []"
  have "z_nonempty (z_array (DynamoDBStreamRecord um)) (JArr []) =
      ([too_small ''array'' ''items''], JArr [])"
    by (simp add: z_nonempty_def z_array_def array_results_def array_issues_Nil)
  then have "(too_small ''array'' ''items'')\<lparr> path := [Key ''Records''] \<rparr>
      \<in> set (fst (DynamoDBStreamSchema um isD (JObj ps)))"
    using e
    by (simp add: DynamoDBStreamSchema_def DynamoDBStreamSchema_shape_def z_object_def
        z_object_props_def object_results_Cons object_issues_Cons prefixIssues_def Let_def
        too_small_def)
  then show "\<exists>iss. z_safeParse (DynamoDBStreamSchema um isD) (JObj ps) = ZFailure iss \<and>
         (too_small ''array'' ''items'')\<lparr> path := [Key ''Records''] \<rparr> \<in> set iss"
    by (auto simp: z_safeParse_def split: prod.splits)
next
  assume "z_safeParse (DynamoDBStreamSchema um isD) event = ZSuccess v"
  then have f: "fst (DynamoDBStreamSchema um isD event) = []"
    and v: "v = snd (DynamoDBStreamSchema um isD event)"
    by (auto simp: z_safeParse_def split: prod.splits if_splits)
  from stream_schema_success [OF f] v
  obtain xs where "xs \<noteq> []"
    "get_prop (props_of v) ''Records'' = JArr (map (\<lambda>x. snd (DynamoDBStreamRecord um x)) xs)"
    by auto
  then show "\<exists>x xs. get_prop (props_of v) ''Records'' = JArr (x # xs)"
    by (cases xs) auto
qed

text \<open>
  The documented event without a record is rejected; with the record of scenario A it
  is accepted, and the result has a record.
\<close>

theorem C10_stream_schema_rejects_empty_Records_witness:
  "(\<exists>iss. z_safeParse (DynamoDBStreamSchema unmarshallDynamoDB (\<lambda>s. True)) (stream_event [])
            = ZFailure iss \<and>
          (too_small ''array'' ''items'')\<lparr> path := [Key ''Records''] \<rparr> \<in> set iss) \<and>
   (\<exists>v x xs. z_safeParse (DynamoDBStreamSchema unmarshallDynamoDB (\<lambda>s. True))
                (stream_event [stream_record ''1'' ''INSERT'' scenario_A_record]) = ZSuccess v \<and>
             get_prop (props_of v) ''Records'' = JArr (x # xs))"
proof -
  let ?S = "DynamoDBStreamSchema unmarshallDynamoDB (\<lambda>s. True)"
  let ?ev = "stream_event [stream_record ''1'' ''INSERT'' scenario_A_record]"
  have obj: "stream_event [] = JObj (props_of (stream_event []))"
    by (simp add: stream_event_def)
  have e: "get_prop (props_of (stream_event [])) ''Records'' = JArr []"
    by code_simp
  have s: "z_safeParse ?S ?ev = ZSuccess (snd (?S ?ev))"
    by code_simp
  from C10_stream_schema_rejects_empty_Records
         [of "props_of (stream_event [])" unmarshallDynamoDB "\<lambda>s. True" ?ev "snd (?S ?ev)"]
  have "(\<exists>iss. z_safeParse ?S (JObj (props_of (stream_event []))) = ZFailure iss \<and>
          (too_small ''array'' ''items'')\<lparr> path := [Key ''Records''] \<rparr> \<in> set iss)"
    and "\<exists>x xs. get_prop (props_of (snd (?S ?ev))) ''Records'' = JArr (x # xs)"
    using e s by blast+
  then show ?thesis using obj s by metis
qed

lemma object_issues_no_issues: "\<forall>r \<in> set rs. fst (snd r) = [] \<Longrightarrow> object_issues rs = []"
  by (induction rs) (auto simp: object_issues_Nil object_issues_Cons prefixIssues_def)

lemma z_record_any_iff: "fst (z_record z_any v) = [] \<longleftrightarrow> (\<exists>m. v = JObj m)"
  by (cases v) (auto simp: z_record_def z_any_def Let_def intro!: object_issues_no_issues)

lemma z_optional_record_any_iff:
  "fst (z_optional (z_record z_any) v) = [] \<longleftrightarrow> v = JUndefined \<or> (\<exists>m. v = JObj m)"
  using z_record_any_iff [of v] by (auto simp: z_optional_def)

lemma z_enum_iff: "fst (z_enum vals v) = [] \<longleftrightarrow> (\<exists>s \<in> set vals. v = JStr s)"
  by (cases v) (auto simp: z_enum_def)

lemma change_record_base_accepts_iff:
  "fst (DynamoDBStreamChangeRecordBase (JObj ps)) = [] \<longleftrightarrow>
     fst (z_optional z_number (get_prop ps ''ApproximateCreationDateTime'')) = [] \<and>
     fst (z_record (z_record z_any) (get_prop ps ''Keys'')) = [] \<and>
     fst (z_optional (z_record z_any) (get_prop ps ''NewImage'')) = [] \<and>
     fst (z_optional (z_record z_any) (get_prop ps ''OldImage'')) = [] \<and>
     fst (z_string (get_prop ps ''SequenceNumber'')) = [] \<and>
     fst (z_number (get_prop ps ''SizeBytes'')) = [] \<and>
     fst (z_enum [''NEW_IMAGE'', ''OLD_IMAGE'', ''NEW_AND_OLD_IMAGES'', ''KEYS_ONLY'']
            (get_prop ps ''StreamViewType'')) = []"
  by (simp add: DynamoDBStreamChangeRecordBase_def DynamoDBStreamChangeRecordBase_shape_def
      z_object_def z_object_props_def object_results_Cons object_results_Nil
      object_issues_Cons object_issues_Nil prefixIssues_Nil_iff Let_def)

text \<open>
  Claim C3, as amended. For every change record the schema accepts, \<open>StreamViewType\<close> is
  one of the four values of the enumeration, and \<open>NewImage\<close> and \<open>OldImage\<close> are each
  absent or an attribute map, independently of \<open>StreamViewType\<close>: the record stays
  accepted when its view type is replaced by any of the four values and its images by
  any combination of absent and present ones.
\<close>

theorem C3_images_independent_of_StreamViewType:
  assumes "fst (DynamoDBStreamChangeRecordBase (JObj ps)) = []"
  shows "(\<exists>t \<in> {''NEW_IMAGE'', ''OLD_IMAGE'', ''NEW_AND_OLD_IMAGES'', ''KEYS_ONLY''}.
            get_prop ps ''StreamViewType'' = JStr t) \<and>
    (get_prop ps ''NewImage'' = JUndefined \<or> (\<exists>m. get_prop ps ''NewImage'' = JObj m)) \<and>
    (get_prop ps ''OldImage'' = JUndefined \<or> (\<exists>m. get_prop ps ''OldImage'' = JObj m)) \<and>
    (\<forall>t new old.
       t \<in> {''NEW_IMAGE'', ''OLD_IMAGE'', ''NEW_AND_OLD_IMAGES'', ''KEYS_ONLY''} \<and>
       (new = JUndefined \<or> (\<exists>m. new = JObj m)) \<and>
       (old = JUndefined \<or> (\<exists>m. old = JObj m)) \<longrightarrow>
       fst (DynamoDBStreamChangeRecordBase
              (JObj (set_prop (set_prop (set_prop ps ''StreamViewType'' (JStr t))
                                 ''NewImage'' new) ''OldImage'' old))) = [])"
  using assms
  unfolding change_record_base_accepts_iff get_prop_set_prop z_optional_record_any_iff z_enum_iff
  by auto

text \<open>
  The first record of the documented example is accepted, and so is the same record
  with the view type \<open>KEYS_ONLY\<close>, no new image and an old image.
\<close>

theorem C3_images_independent_of_StreamViewType_witness:
  "fst (DynamoDBStreamChangeRecordBase documented_insert_record) = [] \<and>
   get_prop (props_of documented_insert_record) ''StreamViewType'' = JStr ''NEW_AND_OLD_IMAGES'' \<and>
   fst (DynamoDBStreamChangeRecordBase
          (JObj (set_prop (set_prop (set_prop (props_of documented_insert_record)
                                       ''StreamViewType'' (JStr ''KEYS_ONLY''))
                             ''NewImage'' JUndefined)
                   ''OldImage'' (JObj [(''Id'', JObj [(''N'', JStr ''101'')])])))) = []"
proof -
  let ?ps = "props_of documented_insert_record"
  have obj: "documented_insert_record = JObj ?ps"
    by (simp add: documented_insert_record_def)
  have a: "fst (DynamoDBStreamChangeRecordBase (JObj ?ps)) = []"
    by code_simp
  have t: "get_prop ?ps ''StreamViewType'' = JStr ''NEW_AND_OLD_IMAGES''"
    by code_simp
  from C3_images_independent_of_StreamViewType [OF a]
  have "\<forall>t new old.
       t \<in> {''NEW_IMAGE'', ''OLD_IMAGE'', ''NEW_AND_OLD_IMAGES'', ''KEYS_ONLY''} \<and>
       (new = JUndefined \<or> (\<exists>m. new = JObj m)) \<and>
       (old = JUndefined \<or> (\<exists>m. old = JObj m)) \<longrightarrow>
       fst (DynamoDBStreamChangeRecordBase
              (JObj (set_prop (set_prop (set_prop ?ps ''StreamViewType'' (JStr t))
                                 ''NewImage'' new) ''OldImage'' old))) = []"
    by blast
  then have "fst (DynamoDBStreamChangeRecordBase
          (JObj (set_prop (set_prop (set_prop ?ps ''StreamViewType'' (JStr ''KEYS_ONLY''))
                             ''NewImage'' JUndefined)
                   ''OldImage'' (JObj [(''Id'', JObj [(''N'', JStr ''101'')])])))) = []"
    by simp
  with a t obj show ?thesis by simp
qed

text \<open>
  The claim as stated fails. The first record of the example in the documentation of
  \<open>DynamoDBStreamSchema\<close> has the view type \<open>NEW_AND_OLD_IMAGES\<close> and no \<open>OldImage\<close>, and a
  record of view type \<open>KEYS_ONLY\<close> may carry both images: the schema accepts both.
\<close>

theorem C3_counterexample:
  "fst (DynamoDBStreamChangeRecordBase documented_insert_record) = [] \<and>
   get_prop (props_of documented_insert_record) ''StreamViewType'' = JStr ''NEW_AND_OLD_IMAGES'' \<and>
   \<not> has_prop (props_of documented_insert_record) ''OldImage'' \<and>
   fst (DynamoDBStreamChangeRecordBase keys_only_record_with_images) = [] \<and>
   get_prop (props_of keys_only_record_with_images) ''StreamViewType'' = JStr ''KEYS_ONLY'' \<and>
   has_prop (props_of keys_only_record_with_images) ''NewImage'' \<and>
   has_prop (props_of keys_only_record_with_images) ''OldImage''"
  by code_simp


lemma unmarshallDynamoDB_scenario_A_Keys:
  "unmarshallDynamoDB scenario_A_Keys = Some (JObj [(''Id'', JNum 101)])"
  by code_simp

lemma unmarshallDynamoDB_scenario_A_NewImage:
  "unmarshallDynamoDB scenario_A_NewImage = Some (JObj [(''Message'', JStr ''hi''), (''Id'', JNum 101)])"
  by code_simp

lemma base_output_object:
  "DynamoDBStreamChangeRecordBase input = ([], v) \<Longrightarrow> \<exists>ps. v = JObj ps"
  by (cases input)
     (auto simp: DynamoDBStreamChangeRecordBase_def z_object_def z_object_props_def Let_def)

lemma change_record_run:
  "DynamoDBStreamChangeRecordBase input = ([], v) \<Longrightarrow>
   DynamoDBStreamChangeRecord um input =
     (case unmarshallDynamoDBTransform um v [] of
        (None, ctx) \<Rightarrow> (ctx, NEVER)
      | (Some out, ctx) \<Rightarrow> (ctx, out))"
  by (simp add: DynamoDBStreamChangeRecord_def z_transform_def)

text \<open>
  Claim C6 (scenario A). For a change record with \<open>StreamViewType\<close>
  \<open>NEW_AND_OLD_IMAGES\<close>, \<open>Keys\<close> \<open>{Id: {N: "101"}}\<close>, \<open>NewImage\<close>
  \<open>{Message: {S: "hi"}, Id: {N: "101"}}\<close> and no \<open>OldImage\<close>, with an unmarshalling
  function that decodes these two attribute maps to \<open>{Id: 101}\<close> and
  \<open>{Message: "hi", Id: 101}\<close>, the transform succeeds without an issue; its result has
  these as \<open>Keys\<close> and \<open>NewImage\<close>, and has no \<open>OldImage\<close>. The schema with the transform
  returns this result for every input the base schema validates into the record.
\<close>

theorem C6_scenario_A:
  assumes "get_prop ps ''StreamViewType'' = JStr ''NEW_AND_OLD_IMAGES''"
    and "get_prop ps ''Keys'' = scenario_A_Keys"
    and "get_prop ps ''NewImage'' = scenario_A_NewImage"
    and "\<not> has_prop ps ''OldImage''"
    and "um scenario_A_Keys = Some (JObj [(''Id'', JNum 101)])"
    and "um scenario_A_NewImage = Some (JObj [(''Message'', JStr ''hi''), (''Id'', JNum 101)])"
  shows "\<exists>res. unmarshallDynamoDBTransform um (JObj ps) [] = (Some (JObj res), []) \<and>
      get_prop res ''Keys'' = JObj [(''Id'', JNum 101)] \<and>
      get_prop res ''NewImage'' = JObj [(''Message'', JStr ''hi''), (''Id'', JNum 101)] \<and>
      \<not> has_prop res ''OldImage'' \<and>
      get_prop res ''StreamViewType'' = JStr ''NEW_AND_OLD_IMAGES'' \<and>
      (\<forall>input. DynamoDBStreamChangeRecordBase input = ([], JObj ps) \<longrightarrow>
         DynamoDBStreamChangeRecord um input = ([], JObj res))"
proof -
  let ?k = "JObj [(''Id'', JNum 101)]"
  let ?n = "JObj [(''Message'', JStr ''hi''), (''Id'', JNum 101)]"
  let ?res = "set_prop (set_prop ps ''Keys'' ?k) ''NewImage'' ?n"
  have old: "get_prop ps ''OldImage'' = JUndefined"
    using assms(4) by (rule get_prop_absent)
  have new: "truthy (get_prop ps ''NewImage'')"
    by (simp add: assms(3) scenario_A_NewImage_def)
  have run: "unmarshallDynamoDBTransform um (JObj ps) [] = (Some (JObj ?res), [])"
    using assms(2,3,5,6) old new
    by (simp add: unmarshallDynamoDBTransform_def unmarshallImage_def
        unmarshallAttributeValue_Some Let_def)
  moreover have "get_prop ?res ''Keys'' = ?k" "get_prop ?res ''NewImage'' = ?n"
    "\<not> has_prop ?res ''OldImage''" "get_prop ?res ''StreamViewType'' = JStr ''NEW_AND_OLD_IMAGES''"
    using assms(1,4) by (simp_all add: get_prop_set_prop has_prop_set_prop)
  moreover have "DynamoDBStreamChangeRecord um input = ([], JObj ?res)"
    if "DynamoDBStreamChangeRecordBase input = ([], JObj ps)" for input
    using change_record_run [OF that, of um] run by simp
  ultimately show ?thesis by blast
qed

text \<open>
  The record of scenario A with the codec of the spec, which decodes the two attribute
  maps as the claim says.
\<close>

theorem C6_scenario_A_witness:
  "DynamoDBStreamChangeRecord unmarshallDynamoDB scenario_A_record =
     ([], JObj [(''Keys'', JObj [(''Id'', JNum 101)]),
                (''NewImage'', JObj [(''Message'', JStr ''hi''), (''Id'', JNum 101)]),
                (''SequenceNumber'', JStr ''111''),
                (''SizeBytes'', JNum 26),
                (''StreamViewType'', JStr ''NEW_AND_OLD_IMAGES'')])"
proof -
  let ?ps = "props_of scenario_A_record"
  have base: "DynamoDBStreamChangeRecordBase scenario_A_record = ([], JObj ?ps)"
    by code_simp
  have h: "get_prop ?ps ''StreamViewType'' = JStr ''NEW_AND_OLD_IMAGES''"
    "get_prop ?ps ''Keys'' = scenario_A_Keys"
    "get_prop ?ps ''NewImage'' = scenario_A_NewImage"
    "\<not> has_prop ?ps ''OldImage''"
    by code_simp+
  from C6_scenario_A [OF h unmarshallDynamoDB_scenario_A_Keys unmarshallDynamoDB_scenario_A_NewImage]
  obtain res where res: "unmarshallDynamoDBTransform unmarshallDynamoDB (JObj ?ps) [] = (Some (JObj res), [])"
    "DynamoDBStreamChangeRecord unmarshallDynamoDB scenario_A_record = ([], JObj res)"
    using base by blast
  have "unmarshallDynamoDBTransform unmarshallDynamoDB (JObj ?ps) [] =
     (Some (JObj [(''Keys'', JObj [(''Id'', JNum 101)]),
                (''NewImage'', JObj [(''Message'', JStr ''hi''), (''Id'', JNum 101)]),
                (''SequenceNumber'', JStr ''111''),
                (''SizeBytes'', JNum 26),
                (''StreamViewType'', JStr ''NEW_AND_OLD_IMAGES'')]), [])"
    by code_simp
  with res show ?thesis by simp
qed

section \<open>The gateway envelope\<close>

lemma set_field_mem_new: "(k, s) \<in> set (set_field sh k s)"
  by (induction sh k s rule: set_field.induct) auto

lemma set_field_mem_old:
  "(k', s') \<in> set sh \<Longrightarrow> k' \<noteq> k \<Longrightarrow> (k', s') \<in> set (set_field sh k s)"
  by (induction sh k s rule: set_field.induct) auto

lemma z_extend_single: "z_extend sh [(k, s)] = set_field sh k s"
  by (simp add: z_extend_def)

text \<open>
  The issues of an object are the issues of every key of the shape, each under its
  key, in the order of the shape.
\<close>

lemma object_issues_results:
  "object_issues (object_results shape ps) =
     concat (map (\<lambda>(k, s). prefixIssues (Key k) (fst (s (get_prop ps k)))) shape)"
  by (induction shape) (auto simp: object_results_Nil object_results_Cons object_issues_Nil
      object_issues_Cons)

lemma gateway_validate_issues:
  "fst (validate (ApiGatewayV2Envelope outer) schema (JObj ps)) =
     concat (map (\<lambda>(k, s). prefixIssues (Key k) (fst (s (get_prop ps k))))
               (z_extend outer [(''body'', schema)]))"
  by (simp add: ApiGatewayV2Envelope_def z_object_def z_object_props_def Let_def
      object_issues_results split: prod.splits)

text \<open>
  Claim C5. For every gateway event that is an object, every outer shape and every
  schema: an error that \<open>parse\<close> throws or \<open>safeParse\<close> returns is the same for both, and
  its cause is the list of the issues of every field of the shape (the outer fields and
  the body), each under its key, none dropped. So for every field of the shape that the
  event lacks and whose schema rejects \<open>undefined\<close>, whichever and however many they are,
  the call fails and the issues of that field are in the one cause. The body, with the
  schema of the caller, and every other outer field are fields of the shape.
\<close>

theorem C5_every_missing_field_is_reported:
  "(\<forall>e. parse (ApiGatewayV2Envelope outer) (JObj ps) schema = Inl e \<or>
         (\<exists>ev. safeParse (ApiGatewayV2Envelope outer) (JObj ps) schema = Failure e ev) \<longrightarrow>
         parse (ApiGatewayV2Envelope outer) (JObj ps) schema = Inl e \<and>
         safeParse (ApiGatewayV2Envelope outer) (JObj ps) schema = Failure e (JObj ps) \<and>
         err_cause e =
           concat (map (\<lambda>(k, s). prefixIssues (Key k) (fst (s (get_prop ps k))))
                     (z_extend outer [(''body'', schema)]))) \<and>
   (\<forall>(k, s) \<in> set (z_extend outer [(''body'', schema)]).
      \<not> has_prop ps k \<and> fst (s JUndefined) \<noteq> [] \<longrightarrow>
      (\<exists>e. parse (ApiGatewayV2Envelope outer) (JObj ps) schema = Inl e \<and>
           safeParse (ApiGatewayV2Envelope outer) (JObj ps) schema = Failure e (JObj ps) \<and>
           prefixIssues (Key k) (fst (s JUndefined)) \<noteq> [] \<and>
           set (prefixIssues (Key k) (fst (s JUndefined))) \<subseteq> set (err_cause e))) \<and>
   (''body'', schema) \<in> set (z_extend outer [(''body'', schema)]) \<and>
   (\<forall>(k, s) \<in> set outer.
      k \<noteq> ''body'' \<longrightarrow> (k, s) \<in> set (z_extend outer [(''body'', schema)]))"
proof -
  let ?env = "ApiGatewayV2Envelope outer"
  let ?shape = "z_extend outer [(''body'', schema)]"
  let ?iss = "fst (validate ?env schema (JObj ps))"
  let ?err = "ParseError ''Failed to parse API Gateway HTTP body'' ?iss"
  have iss: "?iss = concat (map (\<lambda>(k, s). prefixIssues (Key k) (fst (s (get_prop ps k)))) ?shape)"
    by (rule gateway_validate_issues)
  have k: "kind ?env = ''API Gateway HTTP''"
    by (simp add: ApiGatewayV2Envelope_def)
  have run: "safeParse ?env (JObj ps) schema =
      (if ?iss \<noteq> [] then Failure ?err (JObj ps)
       else Success (snd (validate ?env schema (JObj ps))))"
    using k by (cases "validate ?env schema (JObj ps)") (simp add: safeParse_def)
  have thrown: "parse ?env (JObj ps) schema = Inl e \<and>
      safeParse ?env (JObj ps) schema = Failure e (JObj ps) \<and>
      err_cause e = concat (map (\<lambda>(k, s). prefixIssues (Key k) (fst (s (get_prop ps k)))) ?shape)"
    if "parse ?env (JObj ps) schema = Inl e \<or>
        (\<exists>ev. safeParse ?env (JObj ps) schema = Failure e ev)" for e
    using that run iss by (auto simp: parse_def split: if_splits)
  have body: "(''body'', schema) \<in> set ?shape"
    by (simp add: z_extend_single set_field_mem_new)
  have old: "(k, s) \<in> set ?shape" if "(k, s) \<in> set outer" "k \<noteq> ''body''" for k s
    using that by (simp add: z_extend_single set_field_mem_old)
  have missing: "\<exists>e. parse ?env (JObj ps) schema = Inl e \<and>
           safeParse ?env (JObj ps) schema = Failure e (JObj ps) \<and>
           prefixIssues (Key k) (fst (s JUndefined)) \<noteq> [] \<and>
           set (prefixIssues (Key k) (fst (s JUndefined))) \<subseteq> set (err_cause e)"
    if "(k, s) \<in> set ?shape" "\<not> has_prop ps k" "fst (s JUndefined) \<noteq> []" for k s
  proof -
    have "set (prefixIssues (Key k) (fst (s (get_prop ps k)))) \<subseteq> set ?iss"
      unfolding iss using that(1) by force
    then have sub: "set (prefixIssues (Key k) (fst (s JUndefined))) \<subseteq> set ?iss"
      and ne: "prefixIssues (Key k) (fst (s JUndefined)) \<noteq> []"
      using that(2,3) by (simp_all add: get_prop_absent prefixIssues_Nil_iff)
    then have "?iss \<noteq> []" by auto
    with run have "safeParse ?env (JObj ps) schema = Failure ?err (JObj ps)"
      "parse ?env (JObj ps) schema = Inl ?err"
      by (simp_all add: parse_def)
    with sub ne show ?thesis by auto
  qed
  have c2: "\<forall>(k, s) \<in> set ?shape.
      \<not> has_prop ps k \<and> fst (s JUndefined) \<noteq> [] \<longrightarrow>
      (\<exists>e. parse ?env (JObj ps) schema = Inl e \<and>
           safeParse ?env (JObj ps) schema = Failure e (JObj ps) \<and>
           prefixIssues (Key k) (fst (s JUndefined)) \<noteq> [] \<and>
           set (prefixIssues (Key k) (fst (s JUndefined))) \<subseteq> set (err_cause e))"
  proof (intro ballI)
    fix x assume x: "x \<in> set ?shape"
    obtain k s where ks: "x = (k, s)" by (cases x)
    show "case x of (k, s) \<Rightarrow>
      \<not> has_prop ps k \<and> fst (s JUndefined) \<noteq> [] \<longrightarrow>
      (\<exists>e. parse ?env (JObj ps) schema = Inl e \<and>
           safeParse ?env (JObj ps) schema = Failure e (JObj ps) \<and>
           prefixIssues (Key k) (fst (s JUndefined)) \<noteq> [] \<and>
           set (prefixIssues (Key k) (fst (s JUndefined))) \<subseteq> set (err_cause e))"
      unfolding ks using missing [of k s] x ks by simp
  qed
  have c4: "\<forall>(k, s) \<in> set outer. k \<noteq> ''body'' \<longrightarrow> (k, s) \<in> set ?shape"
  proof (intro ballI)
    fix x assume x: "x \<in> set outer"
    obtain k s where ks: "x = (k, s)" by (cases x)
    show "case x of (k, s) \<Rightarrow> k \<noteq> ''body'' \<longrightarrow> (k, s) \<in> set ?shape"
      unfolding ks using old [of k s] x ks by simp
  qed
  from thrown have c1: "\<forall>e. parse ?env (JObj ps) schema = Inl e \<or>
         (\<exists>ev. safeParse ?env (JObj ps) schema = Failure e ev) \<longrightarrow>
         parse ?env (JObj ps) schema = Inl e \<and>
         safeParse ?env (JObj ps) schema = Failure e (JObj ps) \<and>
         err_cause e =
           concat (map (\<lambda>(k, s). prefixIssues (Key k) (fst (s (get_prop ps k)))) ?shape)"
    by (intro allI impI)
  from c1 c2 body c4 show ?thesis by (intro conjI)
qed

text \<open>
  The test \<open>returns an error if the event is not a valid API Gateway HTTP event\<close>: the
  event lacks \<open>rawPath\<close> and \<open>body\<close>, and the cause has the issue of \<open>rawPath\<close> and the
  issue of \<open>body\<close>, in this order.
\<close>

theorem C5_every_missing_field_is_reported_witness:
  "safeParse (ApiGatewayV2Envelope gateway_shape) gateway_event_without_rawPath message_schema =
     Failure (ParseError ''Failed to parse API Gateway HTTP body''
                [\<lparr> code = ''invalid_type'', expected = Some ''string'',
                    message = ''Invalid input: expected string, received undefined'',
                    path = [Key ''rawPath''], fatal = False \<rparr>,
                 \<lparr> code = ''invalid_type'', expected = Some ''object'',
                    message = ''Invalid input: expected object, received undefined'',
                    path = [Key ''body''], fatal = False \<rparr>])
       gateway_event_without_rawPath \<and>
   set (prefixIssues (Key ''rawPath'') (fst (z_string JUndefined))) \<union>
   set (prefixIssues (Key ''body'') (fst (message_schema JUndefined)))
     \<subseteq> set (err_cause (error (safeParse (ApiGatewayV2Envelope gateway_shape)
                                 gateway_event_without_rawPath message_schema)))"
proof -
  let ?ps = "props_of gateway_event_without_rawPath"
  let ?env = "ApiGatewayV2Envelope gateway_shape"
  let ?shape = "z_extend gateway_shape [(''body'', message_schema)]"
  have obj: "gateway_event_without_rawPath = JObj ?ps"
    by (simp add: gateway_event_without_rawPath_def)
  note C5 = C5_every_missing_field_is_reported [of gateway_shape ?ps message_schema]
  have p: "(''rawPath'', z_string) \<in> set gateway_shape" "''rawPath'' \<noteq> ''body''"
    by (simp_all add: gateway_shape_def)
  note c2 = C5 [THEN conjunct2, THEN conjunct1]
  note inb = C5 [THEN conjunct2, THEN conjunct2, THEN conjunct1]
  note c4 = C5 [THEN conjunct2, THEN conjunct2, THEN conjunct2]
  from bspec [OF c4 p(1)] p(2) have inr: "(''rawPath'', z_string) \<in> set ?shape" by simp
  have h: "\<not> has_prop ?ps ''rawPath''" "\<not> has_prop ?ps ''body''"
    "fst (z_string JUndefined) \<noteq> []" "fst (message_schema JUndefined) \<noteq> []"
    by (simp_all add: gateway_event_without_rawPath_def has_prop_def z_string_def
        message_schema_def z_object_def)
  from bspec [OF c2 inr] h(1,3) obtain e where e: "safeParse ?env (JObj ?ps) message_schema = Failure e (JObj ?ps)"
    "set (prefixIssues (Key ''rawPath'') (fst (z_string JUndefined))) \<subseteq> set (err_cause e)"
    by auto
  from bspec [OF c2 inb] h(2,4) obtain e' where e': "safeParse ?env (JObj ?ps) message_schema = Failure e' (JObj ?ps)"
    "set (prefixIssues (Key ''body'') (fst (message_schema JUndefined))) \<subseteq> set (err_cause e')"
    by auto
  from e(1) e'(1) have "e' = e" by simp
  with e e' obj have sub: "set (prefixIssues (Key ''rawPath'') (fst (z_string JUndefined))) \<union>
   set (prefixIssues (Key ''body'') (fst (message_schema JUndefined)))
     \<subseteq> set (err_cause (error (safeParse ?env gateway_event_without_rawPath message_schema)))"
    by simp
  have run: "safeParse ?env gateway_event_without_rawPath message_schema =
     Failure (ParseError ''Failed to parse API Gateway HTTP body''
                [\<lparr> code = ''invalid_type'', expected = Some ''string'',
                    message = ''Invalid input: expected string, received undefined'',
                    path = [Key ''rawPath''], fatal = False \<rparr>,
                 \<lparr> code = ''invalid_type'', expected = Some ''object'',
                    message = ''Invalid input: expected object, received undefined'',
                    path = [Key ''body''], fatal = False \<rparr>])
       gateway_event_without_rawPath"
    by code_simp
  with sub show ?thesis by blast
qed

section \<open>A failure of the unmarshalling\<close>

text \<open>The issues under a path, among the issues of a property or of an element.\<close>

lemma filter_prefix_prefixIssues:
  "filter (\<lambda>i. prefix (k # p) (path i)) (prefixIssues k' X) =
     (if k = k' then prefixIssues k' (filter (\<lambda>i. prefix p (path i)) X) else [])"
  by (induction X) (auto simp: prefixIssues_def)

lemma filter_prefix_array_issues_ge:
  "length rs \<le> n \<Longrightarrow> filter (\<lambda>i. prefix (Index n # p) (path i)) (array_issues rs) = []"
  by (induction rs rule: rev_induct)
     (simp_all add: array_issues_Nil array_issues_snoc filter_prefix_prefixIssues)

lemma filter_prefix_array_issues:
  "n < length rs \<Longrightarrow>
   filter (\<lambda>i. prefix (Index n # p) (path i)) (array_issues rs) =
     prefixIssues (Index n) (filter (\<lambda>i. prefix p (path i)) (fst (rs ! n)))"
proof (induction rs rule: rev_induct)
  case Nil
  then show ?case by simp
next
  case (snoc r rs)
  show ?case
  proof (cases "n < length rs")
    case True
    with snoc.IH show ?thesis
      by (simp add: array_issues_snoc filter_prefix_prefixIssues nth_append)
  next
    case False
    with snoc.prems have n: "n = length rs" by simp
    then show ?thesis
      by (simp add: array_issues_snoc filter_prefix_prefixIssues filter_prefix_array_issues_ge)
  qed
qed

text \<open>
  The transform tries \<open>Keys\<close>, then \<open>NewImage\<close> and \<open>OldImage\<close> where the record has them,
  and stops at the first that \<open>um\<close> fails on, with one issue.
\<close>

lemma transform_first_failure:
  assumes "f = ''Keys'' \<or>
      f = ''NewImage'' \<and> um (get_prop v ''Keys'') \<noteq> None \<and> truthy (get_prop v ''NewImage'') \<or>
      f = ''OldImage'' \<and> um (get_prop v ''Keys'') \<noteq> None \<and>
        (truthy (get_prop v ''NewImage'') \<longrightarrow> um (get_prop v ''NewImage'') \<noteq> None) \<and>
        truthy (get_prop v ''OldImage'')"
    and "um (get_prop v f) = None"
  shows "unmarshallDynamoDBTransform um (JObj v) [] =
    (None, [\<lparr> code = ''custom'', expected = None,
               message = ''Could not unmarshall '' @ f @ '' in DynamoDB stream record'',
               path = [Key f], fatal = True \<rparr>])"
  using assms
  by (auto simp: unmarshallDynamoDBTransform_def unmarshallImage_def unmarshallAttributeValue_def
      Let_def split: option.splits)

text \<open>
  The issues of an event under the change record of its record \<open>n\<close> are the issues of
  that change record.
\<close>

lemma stream_record_issues_dynamodb:
  "filter (\<lambda>i. prefix [Key ''dynamodb''] (path i)) (fst (DynamoDBStreamRecord um (JObj rp))) =
     prefixIssues (Key ''dynamodb'') (fst (DynamoDBStreamChangeRecord um (get_prop rp ''dynamodb'')))"
  by (simp add: DynamoDBStreamRecord_def DynamoDBStreamRecord_shape_def z_object_def
      z_object_props_def object_results_Cons object_results_Nil object_issues_Cons
      object_issues_Nil filter_prefix_prefixIssues Let_def)

lemma stream_schema_issues_record:
  assumes "get_prop ps ''Records'' = JArr xs" and "n < length xs"
  shows "filter (\<lambda>i. prefix (Key ''Records'' # Index n # p) (path i))
           (fst (DynamoDBStreamSchema um isD (JObj ps))) =
     prefixIssues (Key ''Records'') (prefixIssues (Index n)
       (filter (\<lambda>i. prefix p (path i)) (fst (DynamoDBStreamRecord um (xs ! n)))))"
proof -
  from assms(2) have "xs \<noteq> []" by auto
  then have ne: "fst (z_nonempty (z_array (DynamoDBStreamRecord um)) (JArr xs)) =
      array_issues (map (DynamoDBStreamRecord um) xs)"
    by (cases xs) (simp_all add: z_nonempty_def z_array_def array_results_def Let_def)
  show ?thesis
    using assms
    by (simp add: DynamoDBStreamSchema_def DynamoDBStreamSchema_shape_def z_object_def
        z_object_props_def object_results_Cons object_results_Nil object_issues_Cons
        object_issues_Nil filter_prefix_prefixIssues ne filter_prefix_array_issues Let_def)
qed

text \<open>
  Claim C2. Let the base schema validate a change record \<open>r\<close> into \<open>v\<close>, and let \<open>f\<close> be
  the first of \<open>Keys\<close>, \<open>NewImage\<close> and \<open>OldImage\<close> that the transform tries and that cannot
  be unmarshalled. Then the transform returns \<open>z.NEVER\<close> and adds exactly one issue:
  code \<open>custom\<close>, path \<open>[f]\<close>, message \<open>Could not unmarshall f in DynamoDB stream
  record\<close>, fatal. The schema of the change record reports this issue and no other for
  the record. For an event with \<open>r\<close> as the change record of its record \<open>n\<close>, \<open>parse\<close> of
  the stream envelope throws a \<open>ParseError\<close> whose cause is the list of issues of
  \<open>DynamoDBStreamSchema\<close>, and the only issue of the cause under the path of that change
  record is this one, at \<open>Records\<close>, \<open>n\<close>, \<open>dynamodb\<close>, \<open>f\<close>.
\<close>

theorem C2_unmarshalling_failure_is_one_fatal_issue:
  assumes "DynamoDBStreamChangeRecordBase r = ([], JObj v)"
    and "f = ''Keys'' \<or>
      f = ''NewImage'' \<and> um (get_prop v ''Keys'') \<noteq> None \<and> truthy (get_prop v ''NewImage'') \<or>
      f = ''OldImage'' \<and> um (get_prop v ''Keys'') \<noteq> None \<and>
        (truthy (get_prop v ''NewImage'') \<longrightarrow> um (get_prop v ''NewImage'') \<noteq> None) \<and>
        truthy (get_prop v ''OldImage'')"
    and "um (get_prop v f) = None"
  shows "unmarshallDynamoDBTransform um (JObj v) [] =
      (None, [\<lparr> code = ''custom'', expected = None,
                 message = ''Could not unmarshall '' @ f @ '' in DynamoDB stream record'',
                 path = [Key f], fatal = True \<rparr>]) \<and>
    DynamoDBStreamChangeRecord um r =
      ([\<lparr> code = ''custom'', expected = None,
           message = ''Could not unmarshall '' @ f @ '' in DynamoDB stream record'',
           path = [Key f], fatal = True \<rparr>], NEVER) \<and>
    (\<forall>ps xs n rp isD schema.
       get_prop ps ''Records'' = JArr xs \<and> n < length xs \<and> xs ! n = JObj rp \<and>
       get_prop rp ''dynamodb'' = r \<longrightarrow>
       (\<exists>e. parse (DynamoDBStreamEnvelope um isD) (JObj ps) schema = Inl e \<and>
            z_parse (DynamoDBStreamSchema um isD) (JObj ps) = Inl (err_cause e) \<and>
            filter (\<lambda>i. prefix [Key ''Records'', Index n, Key ''dynamodb''] (path i))
              (err_cause e) =
              [\<lparr> code = ''custom'', expected = None,
                  message = ''Could not unmarshall '' @ f @ '' in DynamoDB stream record'',
                  path = [Key ''Records'', Index n, Key ''dynamodb'', Key f],
                  fatal = True \<rparr>]))"
proof -
  let ?I = "\<lparr> code = ''custom'', expected = None,
              message = ''Could not unmarshall '' @ f @ '' in DynamoDB stream record'',
              path = [Key f], fatal = True \<rparr>"
  have t: "unmarshallDynamoDBTransform um (JObj v) [] = (None, [?I])"
    using transform_first_failure [OF assms(2,3)] .
  have c: "DynamoDBStreamChangeRecord um r = ([?I], NEVER)"
    using change_record_run [OF assms(1), of um] t by simp
  have "\<exists>e. parse (DynamoDBStreamEnvelope um isD) (JObj ps) schema = Inl e \<and>
            z_parse (DynamoDBStreamSchema um isD) (JObj ps) = Inl (err_cause e) \<and>
            filter (\<lambda>i. prefix [Key ''Records'', Index n, Key ''dynamodb''] (path i))
              (err_cause e) =
              [?I\<lparr> path := [Key ''Records'', Index n, Key ''dynamodb'', Key f] \<rparr>]"
    if h: "get_prop ps ''Records'' = JArr xs" "n < length xs" "xs ! n = JObj rp"
      "get_prop rp ''dynamodb'' = r" for ps xs n rp isD schema
  proof -
    let ?S = "DynamoDBStreamSchema um isD"
    let ?iss = "fst (?S (JObj ps))"
    have f: "filter (\<lambda>i. prefix [Key ''Records'', Index n, Key ''dynamodb''] (path i)) ?iss =
        [?I\<lparr> path := [Key ''Records'', Index n, Key ''dynamodb'', Key f] \<rparr>]"
      using stream_schema_issues_record [OF h(1,2), of "[Key ''dynamodb'']" um isD]
        stream_record_issues_dynamodb [of um rp] h(3,4) c
      by (simp add: prefixIssues_def)
    then have ne: "?iss \<noteq> []" by auto
    then have "parse (DynamoDBStreamEnvelope um isD) (JObj ps) schema =
        Inl (ParseError ''Failed to parse DynamoDB Stream body'' ?iss)"
      by (cases "?S (JObj ps)")
         (simp add: parse_def safeParse_def DynamoDBStreamEnvelope_def batch_validate_def)
    moreover have "z_parse ?S (JObj ps) = Inl ?iss"
      using ne by (cases "?S (JObj ps)") (simp add: z_parse_def)
    ultimately show ?thesis using f by simp
  qed
  with t c show ?thesis by simp
qed

text \<open>
  Scenario B with the codec of the spec: the key with two kind tags cannot be
  unmarshalled, and the error of the event has the one issue of its second record.
\<close>

theorem C2_unmarshalling_failure_is_one_fatal_issue_witness:
  "DynamoDBStreamChangeRecord unmarshallDynamoDB scenario_B_record =
     ([\<lparr> code = ''custom'', expected = None,
          message = ''Could not unmarshall Keys in DynamoDB stream record'',
          path = [Key ''Keys''], fatal = True \<rparr>], NEVER) \<and>
   parse (DynamoDBStreamEnvelope unmarshallDynamoDB (\<lambda>s. True))
     (stream_event [stream_record ''1'' ''INSERT'' scenario_A_record,
                    stream_record ''2'' ''MODIFY'' scenario_B_record]) z_any =
     Inl (ParseError ''Failed to parse DynamoDB Stream body''
            [\<lparr> code = ''custom'', expected = None,
                message = ''Could not unmarshall Keys in DynamoDB stream record'',
                path = [Key ''Records'', Index 1, Key ''dynamodb'', Key ''Keys''],
                fatal = True \<rparr>])"
proof -
  let ?v = "props_of scenario_B_record"
  have base: "DynamoDBStreamChangeRecordBase scenario_B_record = ([], JObj ?v)"
    by code_simp
  have first: "''Keys'' = ''Keys'' \<or>
      ''Keys'' = ''NewImage'' \<and> unmarshallDynamoDB (get_prop ?v ''Keys'') \<noteq> None \<and>
        truthy (get_prop ?v ''NewImage'') \<or>
      ''Keys'' = ''OldImage'' \<and> unmarshallDynamoDB (get_prop ?v ''Keys'') \<noteq> None \<and>
        (truthy (get_prop ?v ''NewImage'') \<longrightarrow>
           unmarshallDynamoDB (get_prop ?v ''NewImage'') \<noteq> None) \<and>
        truthy (get_prop ?v ''OldImage'')"
    by simp
  have fail: "unmarshallDynamoDB (get_prop ?v ''Keys'') = None"
    by code_simp
  have run: "parse (DynamoDBStreamEnvelope unmarshallDynamoDB (\<lambda>s. True))
     (stream_event [stream_record ''1'' ''INSERT'' scenario_A_record,
                    stream_record ''2'' ''MODIFY'' scenario_B_record]) z_any =
     Inl (ParseError ''Failed to parse DynamoDB Stream body''
            [\<lparr> code = ''custom'', expected = None,
                message = ''Could not unmarshall Keys in DynamoDB stream record'',
                path = [Key ''Records'', Index 1, Key ''dynamodb'', Key ''Keys''],
                fatal = True \<rparr>])"
    by code_simp
  from C2_unmarshalling_failure_is_one_fatal_issue [OF base first fail]
  have "DynamoDBStreamChangeRecord unmarshallDynamoDB scenario_B_record =
     ([\<lparr> code = ''custom'', expected = None,
          message = ''Could not unmarshall '' @ ''Keys'' @ '' in DynamoDB stream record'',
          path = [Key ''Keys''], fatal = True \<rparr>], NEVER)"
    by blast
  with run show ?thesis by simp
qed

end
